theory Spec2Isabelle
  imports Main "HOL-Library.Sublist"
begin

section \<open>Strings and literal global replacement\<close>

text \<open>
  A JavaScript string is modelled as a \<^typ>\<open>string\<close>: one \<^typ>\<open>char\<close> per code unit,
  for code units below 256. The functions of \<^verbatim>\<open>markdownUtils\<close> compare code units with
  ASCII characters only and copy every other code unit unchanged.

  \<^verbatim>\<open>s.replace(/lit/g, rep)\<close> for a regular expression that is a non-empty literal and a
  replacement string without \<^verbatim>\<open>$\<close>: the input is scanned from the left; where the literal
  matches, the replacement is emitted and the scan continues after the match; elsewhere
  one code unit is copied. (The empty literal does not occur in the source.)
\<close>

fun replaceAll :: "string \<Rightarrow> string \<Rightarrow> string \<Rightarrow> string" where
  "replaceAll pat rep [] = []"
| "replaceAll pat rep (c # cs) =
     (if pat \<noteq> [] \<and> prefix pat (c # cs)
      then rep @ replaceAll pat rep (drop (length pat - 1) cs)
      else c # replaceAll pat rep cs)"

section \<open>Escaping and unescaping\<close>

text \<open>
  \<^verbatim>\<open>escapeLinkUrl(url)\<close>: three global replacements, in the order of the source.
\<close>

definition escapeLinkUrl :: "string \<Rightarrow> string" where
  "escapeLinkUrl url =
     (let url = replaceAll ''('' ''%28'' url;
          url = replaceAll '')'' ''%29'' url;
          url = replaceAll '' '' ''%20'' url
      in url)"

text \<open>
  \<^verbatim>\<open>unescapeLinkUrl(url)\<close>: the replacements \<^verbatim>\<open>%28\<close>, \<^verbatim>\<open>%29\<close>, \<^verbatim>\<open>%20\<close>, in this order.
\<close>

definition unescapeLinkUrl :: "string \<Rightarrow> string" where
  "unescapeLinkUrl url =
     (let url = replaceAll ''%28'' ''('' url;
          url = replaceAll ''%29'' '')'' url;
          url = replaceAll ''%20'' '' '' url
      in url)"

text \<open>
  \<^verbatim>\<open>escapeTableCell(text)\<close>: \<^verbatim>\<open><\<close>, \<^verbatim>\<open>>\<close>, newline, then \<^verbatim>\<open>|\<close>, which gets a
  backslash (code unit 0x5C) in front.
\<close>

definition escapeTableCell :: "string \<Rightarrow> string" where
  "escapeTableCell text =
     (let text = replaceAll ''<'' ''&lt;'' text;
          text = replaceAll ''>'' ''&gt;'' text;
          text = replaceAll ''\<newline>'' ''<br/>'' text;
          text = replaceAll ''|'' [CHR 0x5C, CHR ''|''] text
      in text)"

text \<open>
  \<^verbatim>\<open>escapeTitleText(text)\<close>: \<^verbatim>\<open>text.replace(/(\[|\])/g, '\\$1')\<close> puts a backslash in front of
  every \<^verbatim>\<open>[\<close> and \<^verbatim>\<open>]\<close>.
\<close>

definition escapeTitleText :: "string \<Rightarrow> string" where
  "escapeTitleText text =
     concat (map (\<lambda>c. if c = CHR ''['' \<or> c = CHR '']'' then [CHR 0x5C, c] else [c]) text)"

text \<open>\<^verbatim>\<open>escapeInlineCode(text)\<close>: every backtick (code unit 0x60) is doubled.\<close>

definition escapeInlineCode :: "string \<Rightarrow> string" where
  "escapeInlineCode text = replaceAll [CHR 0x60] [CHR 0x60, CHR 0x60] text"

text \<open>
  The errors of JavaScript that the functions can raise on the arguments considered here.
\<close>

datatype JSError = TypeError

text \<open>
  The per-character codes behind the round trip of \<^verbatim>\<open>escapeLinkUrl\<close>: \<open>enc\<close> is what the
  three replacements of \<^verbatim>\<open>escapeLinkUrl\<close> do to one code unit; \<open>enc1\<close> and \<open>enc2\<close> are what
  is left of it after the first and the second replacement of \<^verbatim>\<open>unescapeLinkUrl\<close>.
\<close>

definition enc :: "char \<Rightarrow> string" where
  "enc x = (if x = CHR ''('' then ''%28'' else if x = CHR '')'' then ''%29''
            else if x = CHR '' '' then ''%20'' else [x])"

definition enc1 :: "char \<Rightarrow> string" where
  "enc1 x = (if x = CHR '')'' then ''%29'' else if x = CHR '' '' then ''%20'' else [x])"

definition enc2 :: "char \<Rightarrow> string" where
  "enc2 x = (if x = CHR '' '' then ''%20'' else [x])"

section \<open>White space, trimming and code-unit tests\<close>

text \<open>
  The code units that \<^verbatim>\<open>\s\<close> matches and \<^verbatim>\<open>String.prototype.trim\<close> removes (the same set in
  ECMAScript: white space and line terminators), among the code units below 256: tab,
  line feed, vertical tab, form feed, carriage return, space and no-break space.
\<close>

definition isWhiteSpace :: "char \<Rightarrow> bool" where
  "isWhiteSpace c =
     (c = CHR 0x09 \<or> c = CHR 0x0A \<or> c = CHR 0x0B \<or> c = CHR 0x0C \<or> c = CHR 0x0D
      \<or> c = CHR 0x20 \<or> c = CHR 0xA0)"

text \<open>\<^verbatim>\<open>\d\<close>: the ten ASCII digits.\<close>

definition isDigit :: "char \<Rightarrow> bool" where
  "isDigit c = (c \<in> set ''0123456789'')"

text \<open>The character class \<^verbatim>\<open>[*+-]\<close>.\<close>

definition isBullet :: "char \<Rightarrow> bool" where
  "isBullet c = (c = CHR ''*'' \<or> c = CHR ''+'' \<or> c = CHR ''-'')"

definition trim :: "string \<Rightarrow> string" where
  "trim s = rev (dropWhile isWhiteSpace (rev (dropWhile isWhiteSpace s)))"

text \<open>
  \<^verbatim>\<open>s[i]\<close> on a string: the code unit at \<open>i\<close>, or \<^verbatim>\<open>undefined\<close> (\<open>None\<close>) out of range,
  as for \<^verbatim>\<open>trimmed[trimmed.length - 1]\<close> on the empty string, where the index is \<open>-1\<close>.
\<close>

definition index :: "string \<Rightarrow> int \<Rightarrow> char option" where
  "index s i = (if 0 \<le> i \<and> i < int (length s) then Some (s ! nat i) else None)"

section \<open>List lines\<close>

text \<open>
  The three alternatives of the bullet token, as both \<^verbatim>\<open>listRegex\<close> and \<^verbatim>\<open>emptyListRegex\<close>
  have them: \<^verbatim>\<open>[*+-] \[[x ]\]\<close>, \<^verbatim>\<open>[*+-]\<close> and \<^verbatim>\<open>(\d+)[.)]\<close>. Each scanner returns the
  matched text and the rest of the input, the third one also the digits (group 3).
  \<^verbatim>\<open>\d+\<close> is greedy; giving a digit back never helps, since a digit would then have to
  match \<^verbatim>\<open>[.)]\<close>.
\<close>

fun checkboxToken :: "string \<Rightarrow> (string \<times> string) option" where
  "checkboxToken (b # sp # lb # m # rb # rest) =
     (if isBullet b \<and> sp = CHR '' '' \<and> lb = CHR ''['' \<and> (m = CHR ''x'' \<or> m = CHR '' '')
         \<and> rb = CHR '']''
      then Some ([b, sp, lb, m, rb], rest) else None)"
| "checkboxToken _ = None"

fun bulletToken :: "string \<Rightarrow> (string \<times> string) option" where
  "bulletToken (b # rest) = (if isBullet b then Some ([b], rest) else None)"
| "bulletToken [] = None"

definition ordinalToken :: "string \<Rightarrow> (string \<times> string \<times> string) option" where
  "ordinalToken s =
     (let ds = takeWhile isDigit s in
      case dropWhile isDigit s of
        p # rest \<Rightarrow>
          if ds \<noteq> [] \<and> (p = CHR ''.'' \<or> p = CHR '')'') then Some (ds @ [p], ds, rest) else None
      | [] \<Rightarrow> None)"

text \<open>
  The result of a successful \<^verbatim>\<open>line.match(listRegex)\<close>: the match array
  \<^verbatim>\<open>[full match, whitespace, list token, ol line number, [.)]\s, whitespace]\<close>. Groups 3 and
  4 are \<^verbatim>\<open>undefined\<close> (\<open>None\<close>) when the token is not the ordinal alternative.
\<close>

record ListMatch =
  fullMatch :: string
  group1 :: string
  group2 :: string
  group3 :: "string option"
  group4 :: "string option"
  group5 :: string

text \<open>
  The alternatives of group 2 of \<^verbatim>\<open>listRegex\<close>, tried in the order of the source:
  \<^verbatim>\<open>[*+-] \[[x ]\]\s\<close>, then \<^verbatim>\<open>[*+-]\s\<close>, then \<^verbatim>\<open>(\d+)([.)]\s)\<close>. Each returns group 2,
  group 3, group 4 and the rest of the input. What follows group 2 in the expression,
  \<^verbatim>\<open>(\s*)\<close>, always matches, so the first alternative that matches is the one taken.
\<close>

definition listAlt1 :: "string \<Rightarrow> (string \<times> string option \<times> string option \<times> string) option" where
  "listAlt1 s =
     (case checkboxToken s of
        Some (t, w # rest) \<Rightarrow> if isWhiteSpace w then Some (t @ [w], None, None, rest) else None
      | _ \<Rightarrow> None)"

definition listAlt2 :: "string \<Rightarrow> (string \<times> string option \<times> string option \<times> string) option" where
  "listAlt2 s =
     (case bulletToken s of
        Some (t, w # rest) \<Rightarrow> if isWhiteSpace w then Some (t @ [w], None, None, rest) else None
      | _ \<Rightarrow> None)"

definition listAlt3 :: "string \<Rightarrow> (string \<times> string option \<times> string option \<times> string) option" where
  "listAlt3 s =
     (case ordinalToken s of
        Some (t, ds, w # rest) \<Rightarrow>
          if isWhiteSpace w then Some (t @ [w], Some ds, Some [last t, w], rest) else None
      | _ \<Rightarrow> None)"

text \<open>
  \<^verbatim>\<open>line.match(listRegex)\<close>, \<^verbatim>\<open>null\<close> being \<open>None\<close>. The expression is anchored at the start
  of the line. The leading \<^verbatim>\<open>(\s*)\<close> is greedy and takes the whole run of white space:
  every alternative of the token starts with a bullet or a digit, so giving white space
  back never helps.
\<close>

definition matchListRegex :: "string \<Rightarrow> ListMatch option" where
  "matchListRegex line =
     (let ws = takeWhile isWhiteSpace line;
          s = dropWhile isWhiteSpace line;
          alt = (case listAlt1 s of Some r \<Rightarrow> Some r
                 | None \<Rightarrow> (case listAlt2 s of Some r \<Rightarrow> Some r | None \<Rightarrow> listAlt3 s))
      in case alt of
           None \<Rightarrow> None
         | Some (tok, g3, g4, rest) \<Rightarrow>
             Some \<lparr>fullMatch = ws @ tok @ takeWhile isWhiteSpace rest, group1 = ws,
                   group2 = tok, group3 = g3, group4 = g4,
                   group5 = takeWhile isWhiteSpace rest\<rparr>)"

text \<open>
  A JavaScript number, as far as \<^verbatim>\<open>olLineNumber\<close> produces one: a natural number that a
  double represents exactly, \<^verbatim>\<open>NaN\<close>, or the double nearest to a natural number above
  \<open>2 ^ 53\<close>, whose rounding is not modelled.
\<close>

datatype JSNumber = Num nat | NaN | Rounded nat

definition decimal :: "string \<Rightarrow> nat" where
  "decimal ds = foldl (\<lambda>acc d. 10 * acc + (of_char d - 48)) 0 ds"

text \<open>
  \<^verbatim>\<open>Number(x)\<close> for \<open>x\<close> either \<^verbatim>\<open>undefined\<close> (\<open>None\<close>), which gives \<^verbatim>\<open>NaN\<close>, or a non-empty
  string of digits, which is read in base ten (leading zeros included).
\<close>

definition Number :: "string option \<Rightarrow> JSNumber" where
  "Number x =
     (case x of
        None \<Rightarrow> NaN
      | Some ds \<Rightarrow> (let v = decimal ds in if v \<le> 2 ^ 53 then Num v else Rounded v))"

definition olLineNumber :: "string \<Rightarrow> JSNumber" where
  "olLineNumber line =
     (let match = matchListRegex line in
      case match of Some m \<Rightarrow> Number (group3 m) | None \<Rightarrow> Num 0)"

definition extractListToken :: "string \<Rightarrow> string" where
  "extractListToken line =
     (let match = matchListRegex line in
      case match of Some m \<Rightarrow> group2 m | None \<Rightarrow> [])"

definition isListItem :: "string \<Rightarrow> bool" where
  "isListItem line = (matchListRegex line \<noteq> None)"

text \<open>
  The tail \<^verbatim>\<open>(\s+)$\<close> of \<^verbatim>\<open>emptyListRegex\<close>: the rest of the line is white space, at least
  one code unit of it, up to the end of the input (the expression has no \<^verbatim>\<open>m\<close> flag).
\<close>

definition whiteSpaceToEnd :: "string \<Rightarrow> bool" where
  "whiteSpaceToEnd s = (s \<noteq> [] \<and> list_all isWhiteSpace s)"

text \<open>
  \<^verbatim>\<open>emptyListRegex.test(line)\<close>. After the leading white space the alternatives of the
  token are tried in order, each with the tail \<^verbatim>\<open>(\s+)$\<close>; when the tail fails after one
  alternative the next one is tried, as the backtracking matcher does.
\<close>

definition isEmptyListItem :: "string \<Rightarrow> bool" where
  "isEmptyListItem line =
     (let s = dropWhile isWhiteSpace line in
      (case checkboxToken s of Some (t, rest) \<Rightarrow> whiteSpaceToEnd rest | None \<Rightarrow> False)
      \<or> (case bulletToken s of Some (t, rest) \<Rightarrow> whiteSpaceToEnd rest | None \<Rightarrow> False)
      \<or> (case ordinalToken s of Some (t, ds, rest) \<Rightarrow> whiteSpaceToEnd rest | None \<Rightarrow> False))"

text \<open>
  The texts that group 2 of \<^verbatim>\<open>emptyListRegex\<close> matches in full, the bullet tokens: a bullet,
  a bullet with a check box (\<^verbatim>\<open>- [x]\<close>, \<^verbatim>\<open>- [ ]\<close>), or digits and one of \<^verbatim>\<open>.\<close> and \<^verbatim>\<open>)\<close>.
\<close>

definition isBulletToken :: "string \<Rightarrow> bool" where
  "isBulletToken t =
     ((length t = 1 \<and> isBullet (t ! 0))
      \<or> (length t = 5 \<and> isBullet (t ! 0) \<and> t ! 1 = CHR '' '' \<and> t ! 2 = CHR ''[''
            \<and> (t ! 3 = CHR ''x'' \<or> t ! 3 = CHR '' '') \<and> t ! 4 = CHR '']'')
      \<or> (2 \<le> length t \<and> list_all isDigit (butlast t)
            \<and> (last t = CHR ''.'' \<or> last t = CHR '')'')))"

section \<open>Tables\<close>

text \<open>
  \<^verbatim>\<open>MarkdownTableJustify\<close>. (The string value of \<^verbatim>\<open>Right\<close> in the source is \<^verbatim>\<open>'right,'\<close>;
  \<^verbatim>\<open>createMarkdownTable\<close> compares with \<^verbatim>\<open>Left\<close> and \<^verbatim>\<open>Center\<close> only.)
\<close>

datatype MarkdownTableJustify = Left | Center | Right

text \<open>
  A value as \<^verbatim>\<open>createMarkdownTable\<close> meets one, in \<^verbatim>\<open>row[h.name]\<close> or as the result of
  \<^verbatim>\<open>filter\<close>: a string; \<^verbatim>\<open>undefined\<close>, which also stands for every other falsy value that is
  not a string; or any other value, one that is truthy and not a string (a function, an
  object, a number) and has no method \<^verbatim>\<open>replace\<close>.
\<close>

datatype JSValue = Text string | Undefined | Other

text \<open>
  \<^verbatim>\<open>MarkdownTableHeader\<close>. An optional field that is absent is \<open>None\<close>. \<^verbatim>\<open>filter\<close> is typed
  \<^verbatim>\<open>Function\<close>: it takes the value of \<^verbatim>\<open>row[h.name]\<close> and returns any value.
\<close>

record MarkdownTableHeader =
  name :: string
  label :: string
  filter' :: "(JSValue \<Rightarrow> JSValue) option"
  disableEscape :: "bool option"
  justify :: "MarkdownTableJustify option"

text \<open>
  \<^verbatim>\<open>MarkdownTableRow\<close>: a plain object, given by its own properties, all of them strings.
\<close>

type_synonym MarkdownTableRow = "string \<rightharpoonup> string"

text \<open>
  The properties that every plain object inherits from \<^verbatim>\<open>Object.prototype\<close>: functions, and
  for \<^verbatim>\<open>__proto__\<close> the prototype object itself.
\<close>

definition objectPrototypeKeys :: "string list" where
  "objectPrototypeKeys =
     [''constructor'', ''__defineGetter__'', ''__defineSetter__'', ''hasOwnProperty'',
      ''__lookupGetter__'', ''__lookupSetter__'', ''isPrototypeOf'', ''propertyIsEnumerable'',
      ''toString'', ''valueOf'', ''__proto__'', ''toLocaleString'']"

text \<open>
  \<^verbatim>\<open>row[key]\<close>: the own property when there is one, else the inherited one, else
  \<^verbatim>\<open>undefined\<close>.
\<close>

definition getProperty :: "MarkdownTableRow \<Rightarrow> string \<Rightarrow> JSValue" where
  "getProperty row key =
     (case row key of
        Some s \<Rightarrow> Text s
      | None \<Rightarrow> if key \<in> set objectPrototypeKeys then Other else Undefined)"

text \<open>
  Modelled from the spec: the function of the package \<^verbatim>\<open>string-padding\<close>, which is not part
  of the sources, called as \<^verbatim>\<open>stringPadding(s, n, ' ', stringPadding.RIGHT)\<close>; the spec has
  the text padded on the right with spaces to the minimum width \<open>n\<close>, a longer text
  unchanged.
\<close>

definition stringPadding :: "string \<Rightarrow> nat \<Rightarrow> char \<Rightarrow> string" where
  "stringPadding s n c = s @ replicate (n - length s) c"

text \<open>\<^verbatim>\<open>Array.prototype.join\<close> on an array of strings.\<close>

fun join :: "string \<Rightarrow> string list \<Rightarrow> string" where
  "join sep [] = []"
| "join sep [x] = x"
| "join sep (x # y # ys) = x @ sep @ join sep (y # ys)"

definition minCellWidth :: nat where
  "minCellWidth = 5"

text \<open>The template literal \<^verbatim>\<open>`| ${cells.join(' | ')} |`\<close>.\<close>

definition tableLine :: "string list \<Rightarrow> string" where
  "tableLine cells = ''| '' @ join '' | '' cells @ '' |''"

text \<open>
  The body of the first loop of \<^verbatim>\<open>createMarkdownTable\<close>, on the pair of the arrays
  \<^verbatim>\<open>headersMd\<close> and \<^verbatim>\<open>lineMd\<close>.
\<close>

definition headerStep ::
  "string list \<times> string list \<Rightarrow> MarkdownTableHeader \<Rightarrow> string list \<times> string list" where
  "headerStep acc h =
     (case acc of (headersMd, lineMd) \<Rightarrow>
        let headersMd = headersMd @ [stringPadding (label h) minCellWidth CHR '' ''];
            justify = (case justify h of Some j \<Rightarrow> j | None \<Rightarrow> Left)
        in if justify = Left then (headersMd, lineMd @ [''-----''])
           else if justify = Center then (headersMd, lineMd @ ['':---:''])
           else (headersMd, lineMd @ [''----:'']))"

text \<open>
  The body of the inner loop: the padded cell of a header in a row. \<^verbatim>\<open>x || ''\<close> turns
  \<^verbatim>\<open>undefined\<close> and the empty string into the empty string and keeps any other value.
  \<^verbatim>\<open>escapeTableCell(value)\<close> starts with \<^verbatim>\<open>text.replace(...)\<close>, which raises a \<^verbatim>\<open>TypeError\<close> on
  a value that is not a string. With \<^verbatim>\<open>disableEscape\<close> such a value goes to the package
  \<^verbatim>\<open>string-padding\<close> as it is; what the package makes of it, a text or an error, is not in
  the sources and is the parameter \<open>padOther\<close>.
\<close>

definition cellMd :: "JSError + string \<Rightarrow> MarkdownTableRow \<Rightarrow> MarkdownTableHeader \<Rightarrow> JSError + string" where
  "cellMd padOther row h =
     (let v = (case filter' h of
                 Some f \<Rightarrow> f (getProperty row (name h))
               | None \<Rightarrow> getProperty row (name h));
          value = (case v of
                     Undefined \<Rightarrow> Text []
                   | Text s \<Rightarrow> if s = [] then Text [] else Text s
                   | Other \<Rightarrow> Other)
      in if disableEscape h = Some True
         then (case value of
                 Text s \<Rightarrow> Inr (stringPadding s minCellWidth CHR '' '')
               | _ \<Rightarrow> padOther)
         else (case value of
                 Text s \<Rightarrow> Inr (stringPadding (escapeTableCell s) minCellWidth CHR '' '')
               | _ \<Rightarrow> Inl TypeError))"

text \<open>
  The inner loop over the headers, pushing the cells to \<^verbatim>\<open>rowMd\<close>, and the outer loop over
  the rows, pushing the lines to \<^verbatim>\<open>output\<close>; an error ends both.
\<close>

fun rowCells ::
  "JSError + string \<Rightarrow> MarkdownTableRow \<Rightarrow> MarkdownTableHeader list \<Rightarrow> string list
   \<Rightarrow> JSError + string list" where
  "rowCells padOther row [] rowMd = Inr rowMd"
| "rowCells padOther row (h # hs) rowMd =
     (case cellMd padOther row h of
        Inl e \<Rightarrow> Inl e
      | Inr c \<Rightarrow> rowCells padOther row hs (rowMd @ [c]))"

fun tableRows ::
  "JSError + string \<Rightarrow> MarkdownTableHeader list \<Rightarrow> MarkdownTableRow list \<Rightarrow> string list
   \<Rightarrow> JSError + string list" where
  "tableRows padOther headers [] output = Inr output"
| "tableRows padOther headers (row # rows) output =
     (case rowCells padOther row headers [] of
        Inl e \<Rightarrow> Inl e
      | Inr rowMd \<Rightarrow> tableRows padOther headers rows (output @ [tableLine rowMd]))"

definition createMarkdownTable ::
  "JSError + string \<Rightarrow> MarkdownTableHeader list \<Rightarrow> MarkdownTableRow list \<Rightarrow> JSError + string" where
  "createMarkdownTable padOther headers rows =
     (case foldl headerStep ([], []) headers of (headersMd, lineMd) \<Rightarrow>
        let output = [];
            output = output @ [tableLine headersMd];
            output = output @ [tableLine lineMd]
        in case tableRows padOther headers rows output of
             Inl e \<Rightarrow> Inl e
           | Inr output \<Rightarrow> Inr (join ''\<newline>'' output))"

text \<open>
  \<^verbatim>\<open>s.match(re)\<close> for a global expression \<^verbatim>\<open>re\<close> that is one character class: the array of
  all matches, each one code unit, or \<^verbatim>\<open>null\<close> (\<open>None\<close>) when there is no match.
\<close>

definition matchAll :: "(char \<Rightarrow> bool) \<Rightarrow> string \<Rightarrow> string list option" where
  "matchAll cls s = (let ms = map (\<lambda>c. [c]) (filter cls s) in if ms = [] then None else Some ms)"

text \<open>
  \<^verbatim>\<open>countTableColumns(line)\<close>, for a line that is a string or \<^verbatim>\<open>null\<close> (\<open>None\<close>). \<^verbatim>\<open>!line\<close> holds
  for \<^verbatim>\<open>null\<close> and for the empty string.
\<close>

definition countTableColumns :: "string option \<Rightarrow> int" where
  "countTableColumns line =
     (case line of
        None \<Rightarrow> 0
      | Some l \<Rightarrow>
          if l = [] then 0
          else
            let trimmed = trim l;
                pipes = int (length (case matchAll (\<lambda>c. c = CHR ''|'') l of
                                       Some ms \<Rightarrow> ms | None \<Rightarrow> []));
                pipes = (if index trimmed 0 = Some CHR ''|'' then pipes - 1 else pipes);
                pipes = (if index trimmed (int (length trimmed) - 1) = Some CHR ''|''
                         then pipes - 1 else pipes)
            in pipes + 1)"

text \<open>The complement of the character class \<^verbatim>\<open>[^\s\-:|]\<close>.\<close>

definition isDividerChar :: "char \<Rightarrow> bool" where
  "isDividerChar c = (isWhiteSpace c \<or> c = CHR ''-'' \<or> c = CHR '':'' \<or> c = CHR ''|'')"

definition matchingTableDivider :: "string option \<Rightarrow> string option \<Rightarrow> bool" where
  "matchingTableDivider header divider =
     (case (header, divider) of
        (Some h, Some d) \<Rightarrow>
          if h = [] \<or> d = [] then False
          else
            let invalidChars = matchAll (\<lambda>c. \<not> isDividerChar c) d
            in if invalidChars \<noteq> None then False
               else
                 let columns = countTableColumns header;
                     cols = countTableColumns divider
                 in cols > 0 \<and> cols \<ge> columns
      | _ \<Rightarrow> False)"

section \<open>Titles\<close>

text \<open>
  \<^verbatim>\<open>s.split(sep)\<close> for a separator of one code unit: the pieces between the separators, at
  least one piece. (In the second equation the recursive call never returns the empty
  array; that branch is there for totality only.)
\<close>

fun split :: "char \<Rightarrow> string \<Rightarrow> string list" where
  "split sep [] = [[]]"
| "split sep (c # cs) =
     (if c = sep then [] # split sep cs
      else (case split sep cs of p # ps \<Rightarrow> (c # p) # ps | [] \<Rightarrow> [[c]]))"

text \<open>
  The line terminators, which \<^verbatim>\<open>.\<close> does not match (the expressions have no \<^verbatim>\<open>s\<close> flag):
  line feed and carriage return among the code units below 256.
\<close>

definition isLineTerminator :: "char \<Rightarrow> bool" where
  "isLineTerminator c = (c = CHR 0x0A \<or> c = CHR 0x0D)"

text \<open>The character class of \<^verbatim>\<open>filterRegex\<close>, \<^verbatim>\<open>/^[# \n\t*`-]*/\<close>.\<close>

definition isFilterChar :: "char \<Rightarrow> bool" where
  "isFilterChar c =
     (c = CHR ''#'' \<or> c = CHR '' '' \<or> c = CHR 0x0A \<or> c = CHR 0x09 \<or> c = CHR ''*''
      \<or> c = CHR 0x60 \<or> c = CHR ''-'')"

text \<open>
  The lazy \<^verbatim>\<open>.*?\)\<close>: the characters up to the first \<^verbatim>\<open>)\<close>, none of them a line
  terminator, and the input after that \<^verbatim>\<open>)\<close>.
\<close>

fun lazyToParen :: "string \<Rightarrow> (string \<times> string) option" where
  "lazyToParen [] = None"
| "lazyToParen (c # cs) =
     (if c = CHR '')'' then Some ([], cs)
      else if isLineTerminator c then None
      else (case lazyToParen cs of Some (u, rest) \<Rightarrow> Some (c # u, rest) | None \<Rightarrow> None))"

text \<open>
  The lazy \<^verbatim>\<open>.+?\)\<close>: the first character is taken whatever it is (a \<^verbatim>\<open>)\<close> too, but no line
  terminator), then the fewest characters up to a \<^verbatim>\<open>)\<close>. Returns the url and the input
  after the closing \<^verbatim>\<open>)\<close>.
\<close>

definition lazyUrl :: "string \<Rightarrow> (string \<times> string) option" where
  "lazyUrl s =
     (case s of
        [] \<Rightarrow> None
      | c # cs \<Rightarrow>
          if isLineTerminator c then None
          else (case lazyToParen cs of Some (u, rest) \<Rightarrow> Some (c # u, rest) | None \<Rightarrow> None))"

text \<open>
  A match of a regular expression at the start of the input is returned as the pair of
  \<^verbatim>\<open>match[0]\<close>, the matched text, and \<^verbatim>\<open>match[1]\<close>, the first group.

  \<^verbatim>\<open>\[([^\]]+?)\]\(.+?\)\<close>: the label runs to the first \<^verbatim>\<open>]\<close> and is not empty; \<^verbatim>\<open>](\<close> and the
  url follow.
\<close>

definition mdLinkBody :: "string \<Rightarrow> (string \<times> string) option" where
  "mdLinkBody s =
     (case s of
        [] \<Rightarrow> None
      | c # r \<Rightarrow>
          if c \<noteq> CHR ''['' then None
          else
            let lbl = takeWhile (\<lambda>x. x \<noteq> CHR '']'') r in
            if lbl = [] then None
            else (case dropWhile (\<lambda>x. x \<noteq> CHR '']'') r of
                    rb # lp # r3 \<Rightarrow>
                      if lp \<noteq> CHR ''('' then None
                      else (case lazyUrl r3 of
                              Some (u, rest) \<Rightarrow> Some (''['' @ lbl @ '']('' @ u @ '')'', lbl)
                            | None \<Rightarrow> None)
                  | _ \<Rightarrow> None))"

text \<open>\<^verbatim>\<open>\[\]\((.+?)\)\<close>: the first group is the url.\<close>

definition emptyMdLinkBody :: "string \<Rightarrow> (string \<times> string) option" where
  "emptyMdLinkBody s =
     (case s of
        lb # rb # lp # r3 \<Rightarrow>
          if lb = CHR ''['' \<and> rb = CHR '']'' \<and> lp = CHR ''(''
          then (case lazyUrl r3 of
                  Some (u, rest) \<Rightarrow> Some (''[]('' @ u @ '')'', u)
                | None \<Rightarrow> None)
          else None
      | _ \<Rightarrow> None)"

text \<open>
  The greedy \<^verbatim>\<open>!?\<close> in front of an expression: with a \<^verbatim>\<open>!\<close> at the start the rest of the
  expression is tried after it, and, when that fails, at the \<^verbatim>\<open>!\<close> itself.
\<close>

definition optionalBang ::
  "(string \<Rightarrow> (string \<times> string) option) \<Rightarrow> string \<Rightarrow> (string \<times> string) option" where
  "optionalBang m s =
     (case s of
        [] \<Rightarrow> m s
      | c # r \<Rightarrow>
          if c = CHR ''!''
          then (case m r of Some (whole, g1) \<Rightarrow> Some (c # whole, g1) | None \<Rightarrow> m s)
          else m s)"

text \<open>\<^verbatim>\<open>mdLinkRegex\<close> and \<^verbatim>\<open>emptyMdLinkRegex\<close>, matched at the start of the input.\<close>

definition mdLinkRegex :: "string \<Rightarrow> (string \<times> string) option" where
  "mdLinkRegex = optionalBang mdLinkBody"

definition emptyMdLinkRegex :: "string \<Rightarrow> (string \<times> string) option" where
  "emptyMdLinkRegex = optionalBang emptyMdLinkBody"

text \<open>
  \<^verbatim>\<open>s.replace(re, '$1')\<close> for a global expression \<^verbatim>\<open>re\<close> whose matches are not empty: at
  each position, from the left, a match is replaced by its first group and the scan goes
  on after the match; without a match one code unit is copied.
\<close>

fun replaceGroup1 :: "(string \<Rightarrow> (string \<times> string) option) \<Rightarrow> string \<Rightarrow> string" where
  "replaceGroup1 m [] = []"
| "replaceGroup1 m (c # cs) =
     (case m (c # cs) of
        Some (whole, g1) \<Rightarrow> g1 @ replaceGroup1 m (drop (length whole - 1) cs)
      | None \<Rightarrow> c # replaceGroup1 m cs)"

text \<open>
  \<^verbatim>\<open>titleFromBody(body)\<close>, for a body that is a string or \<^verbatim>\<open>null\<close> (\<open>None\<close>). \<^verbatim>\<open>lines[0]\<close> of an
  empty array would be \<^verbatim>\<open>undefined\<close> and \<^verbatim>\<open>.trim()\<close> on it a \<^verbatim>\<open>TypeError\<close>. The replacement
  of \<^verbatim>\<open>filterRegex\<close>, anchored and not global, removes the leading run of its class.
\<close>

definition titleFromBody :: "string option \<Rightarrow> JSError + string" where
  "titleFromBody body =
     (case body of
        None \<Rightarrow> Inr []
      | Some b \<Rightarrow>
          if b = [] then Inr []
          else
            let lines = split CHR 0x0A (trim b) in
            case lines of
              [] \<Rightarrow> Inl TypeError
            | l0 # _ \<Rightarrow>
                let title = trim l0 in
                Inr (take 80
                      (replaceGroup1 emptyMdLinkRegex
                        (replaceGroup1 mdLinkRegex (dropWhile isFilterChar title)))))"

section \<open>Base urls\<close>

text \<open>
  \<^verbatim>\<open>/(\]\()([^\s\)]+)(.*?\))/\<close> matched at the start of the input: \<^verbatim>\<open>](\<close>, the url as the longest
  run of characters that are neither white space nor \<^verbatim>\<open>)\<close>, at least one, and the rest up
  to the first \<^verbatim>\<open>)\<close> on the line. Returns the url and the third group. (When the third
  group fails after the longest run it fails after every shorter one: the characters given
  back are no line terminators, and the same text would have to be crossed.)
\<close>

definition baseUrlMatch :: "string \<Rightarrow> (string \<times> string) option" where
  "baseUrlMatch s =
     (case s of
        rb # lp # r \<Rightarrow>
          if rb = CHR '']'' \<and> lp = CHR ''(''
          then
            let u = takeWhile (\<lambda>c. \<not> isWhiteSpace c \<and> c \<noteq> CHR '')'') r in
            if u = [] then None
            else (case lazyToParen (dropWhile (\<lambda>c. \<not> isWhiteSpace c \<and> c \<noteq> CHR '')'') r) of
                    Some (t, rest) \<Rightarrow> Some (u, t @ '')'')
                  | None \<Rightarrow> None)
          else None
      | _ \<Rightarrow> None)"

text \<open>
  \<^verbatim>\<open>prependBaseUrl(md, baseUrl)\<close>: every match is replaced by what the callback returns,
  \<^verbatim>\<open>before + urlUtils.prependBaseUrl(url, baseUrl) + after\<close>. \<^verbatim>\<open>urlUtils\<close> is outside the sources
  at hand; \<open>urlPrependBaseUrl\<close> stands for its function. The scan is that of
  \<open>replaceGroup1\<close>, with the text returned by the callback in the place of the first group.
\<close>

definition prependBaseUrl :: "(string \<Rightarrow> string \<Rightarrow> string) \<Rightarrow> string \<Rightarrow> string \<Rightarrow> string" where
  "prependBaseUrl urlPrependBaseUrl md baseUrl =
     replaceGroup1
       (\<lambda>s. case baseUrlMatch s of
               Some (u, after) \<Rightarrow>
                 Some ('']('' @ u @ after, '']('' @ urlPrependBaseUrl u baseUrl @ after)
             | None \<Rightarrow> None)
       md"

section \<open>Extracting urls\<close>

text \<open>
  A token of the markdown-it parser, as far as \<^verbatim>\<open>extractFileUrls\<close> reads it: \<^verbatim>\<open>type\<close>, \<^verbatim>\<open>attrs\<close>
  (an array of arrays of strings), \<^verbatim>\<open>content\<close> and \<^verbatim>\<open>children\<close> (\<^verbatim>\<open>null\<close> and the empty array
  are both the empty list).
\<close>

datatype Token =
  Token (tokenType: string) (attrs: "string list list") (content: string) (children: "Token list")

datatype ExtractFileUrlsResultType = Anchor | Image

record ExtractFileUrlsResult =
  url :: string
  type :: ExtractFileUrlsResultType

text \<open>\<^verbatim>\<open>ExtractFileUrlsOptions\<close>; a field that is absent is \<open>None\<close>.\<close>

record ExtractFileUrlsOptions =
  includeImages :: "bool option"
  includeAnchors :: "bool option"
  detailedResults :: "bool option"
  html :: "bool option"

text \<open>
  The object literal with the defaults and \<^verbatim>\<open>...options\<close>: a field of \<^verbatim>\<open>options\<close> replaces
  the default; \<^verbatim>\<open>options\<close> may be \<^verbatim>\<open>null\<close> (\<open>None\<close>).
\<close>

definition withDefaults :: "ExtractFileUrlsOptions option \<Rightarrow> ExtractFileUrlsOptions" where
  "withDefaults options =
     (let given = (\<lambda>field. case options of None \<Rightarrow> None | Some opts \<Rightarrow> field opts) in
      \<lparr>includeImages = Some (case given includeImages of Some b \<Rightarrow> b | None \<Rightarrow> True),
       includeAnchors = Some (case given includeAnchors of Some b \<Rightarrow> b | None \<Rightarrow> True),
       detailedResults = Some (case given detailedResults of Some b \<Rightarrow> b | None \<Rightarrow> False),
       html = Some (case given html of Some b \<Rightarrow> b | None \<Rightarrow> False)\<rparr>)"

text \<open>
  The loop over \<^verbatim>\<open>token.attrs\<close>: one result for every attribute \<^verbatim>\<open>src\<close> or \<^verbatim>\<open>href\<close> that
  has a second entry, not empty.
\<close>

definition attrUrls :: "ExtractFileUrlsResultType \<Rightarrow> string list list \<Rightarrow> ExtractFileUrlsResult list" where
  "attrUrls ty as =
     concat (map (\<lambda>a. case a of
                        k # v # _ \<Rightarrow>
                          if (k = ''src'' \<or> k = ''href'') \<and> v \<noteq> [] then [\<lparr>url = v, type = ty\<rparr>]
                          else []
                      | _ \<Rightarrow> []) as)"

text \<open>
  \<^verbatim>\<open>searchUrls\<close>, what it pushes to \<^verbatim>\<open>output\<close>, in order. \<^verbatim>\<open>imageRegex\<close> and \<^verbatim>\<open>anchorRegex\<close>
  are defined in \<^verbatim>\<open>htmlUtils\<close>, outside the sources at hand; \<open>imgUrls\<close> and \<open>ancUrls\<close> stand
  for them: the list of \<^verbatim>\<open>result[2]\<close> over the successive \<^verbatim>\<open>regex.exec(token.content)\<close>. A token
  that is skipped with \<^verbatim>\<open>continue\<close> is left without a look at its children.
\<close>

fun searchToken ::
  "ExtractFileUrlsOptions \<Rightarrow> (string \<Rightarrow> string list) \<Rightarrow> (string \<Rightarrow> string list) \<Rightarrow> Token
   \<Rightarrow> ExtractFileUrlsResult list" where
  "searchToken options imgUrls ancUrls (Token ty as cont chs) =
     (if (ty = ''image'' \<and> includeImages options \<noteq> Some True)
         \<or> (ty = ''link_open'' \<and> includeAnchors options \<noteq> Some True)
      then []
      else
        (if ty = ''image'' \<or> ty = ''link_open''
         then attrUrls (if ty = ''image'' then Image else Anchor) as
         else if ty = ''html_block'' \<or> ty = ''html_inline''
         then (if includeImages options = Some True
               then map (\<lambda>u. \<lparr>url = u, type = Image\<rparr>) (imgUrls cont) else [])
              @ (if includeAnchors options = Some True
                 then map (\<lambda>u. \<lparr>url = u, type = Anchor\<rparr>) (ancUrls cont) else [])
         else [])
        @ concat (map (searchToken options imgUrls ancUrls) chs))"

definition searchUrls ::
  "ExtractFileUrlsOptions \<Rightarrow> (string \<Rightarrow> string list) \<Rightarrow> (string \<Rightarrow> string list) \<Rightarrow> Token list
   \<Rightarrow> ExtractFileUrlsResult list" where
  "searchUrls options imgUrls ancUrls tokens =
     concat (map (searchToken options imgUrls ancUrls) tokens)"

text \<open>The two shapes of the result of \<^verbatim>\<open>extractFileUrls\<close>.\<close>

datatype ExtractFileUrlsOutput = Urls "string list" | Detailed "ExtractFileUrlsResult list"

text \<open>
  \<^verbatim>\<open>extractFileUrls(md, options)\<close>. The parser is external: \<open>parse h md\<close> stands for
  \<^verbatim>\<open>new MarkdownIt({ html: h }).parse(md, env)\<close> with \<^verbatim>\<open>validateLinks\<close> installed.
\<close>

definition extractFileUrls ::
  "(bool \<Rightarrow> string \<Rightarrow> Token list) \<Rightarrow> (string \<Rightarrow> string list) \<Rightarrow> (string \<Rightarrow> string list)
   \<Rightarrow> string \<Rightarrow> ExtractFileUrlsOptions option \<Rightarrow> ExtractFileUrlsOutput" where
  "extractFileUrls parse imgUrls ancUrls md options =
     (let options = withDefaults options;
          tokens = parse (html options = Some True) md;
          output = searchUrls options imgUrls ancUrls tokens
      in if detailedResults options = Some True then Detailed output
         else Urls (map url output))"

definition extractImageUrls ::
  "(bool \<Rightarrow> string \<Rightarrow> Token list) \<Rightarrow> (string \<Rightarrow> string list) \<Rightarrow> (string \<Rightarrow> string list)
   \<Rightarrow> string \<Rightarrow> ExtractFileUrlsOutput" where
  "extractImageUrls parse imgUrls ancUrls md =
     extractFileUrls parse imgUrls ancUrls md
       (Some \<lparr>includeImages = Some True, includeAnchors = Some False,
              detailedResults = None, html = None\<rparr>)"

section \<open>Calls with null\<close>

text \<open>
  \<^verbatim>\<open>escapeLinkUrl(url)\<close> as it runs when the argument is a string or \<^verbatim>\<open>null\<close> (\<open>None\<close>): the
  function has no guard, and its first statement, \<^verbatim>\<open>url.replace(...)\<close>, raises a \<^verbatim>\<open>TypeError\<close>
  on \<^verbatim>\<open>null\<close>.
\<close>

definition escapeLinkUrlOrNull :: "string option \<Rightarrow> JSError + string" where
  "escapeLinkUrlOrNull arg =
     (case arg of None \<Rightarrow> Inl TypeError | Some u \<Rightarrow> Inr (escapeLinkUrl u))"

section \<open>Facts about literal replacement\<close>

lemma replaceAll_single:
  "replaceAll [c] rep s = concat (map (\<lambda>x. if x = c then rep else [x]) s)"
  by (induction s) auto

lemma length_replaceAll_single:
  "length (replaceAll [c] rep s) = length s + count_list s c * (length rep - 1)" if "rep \<noteq> []"
  using that by (induction s) (auto simp: Suc_leI)

lemma count_replaceAll_single:
  "c \<notin> set rep \<Longrightarrow> d \<notin> set rep \<Longrightarrow> d \<noteq> c \<Longrightarrow>
   count_list (replaceAll [c] rep s) d = count_list s d"
  by (induction s) (auto simp: count_list_0_iff)

lemma count_replaceAll_pipe:
  "count_list (replaceAll ''|'' [CHR 0x5C, CHR ''|''] s) CHR ''|'' = count_list s CHR ''|''"
  by (induction s) simp_all

lemma length_escapeTableCell:
  "length (escapeTableCell t) \<ge> length t + count_list t CHR ''|''"
proof -
  define a where "a = replaceAll ''<'' ''&lt;'' t"
  define b where "b = replaceAll ''>'' ''&gt;'' a"
  define c where "c = replaceAll ''\<newline>'' ''<br/>'' b"
  have la: "length t \<le> length a" "count_list a CHR ''|'' = count_list t CHR ''|''"
    by (simp_all add: a_def length_replaceAll_single count_replaceAll_single)
  have lb: "length a \<le> length b" "count_list b CHR ''|'' = count_list a CHR ''|''"
    by (simp_all add: b_def length_replaceAll_single count_replaceAll_single)
  have lc: "length b \<le> length c" "count_list c CHR ''|'' = count_list b CHR ''|''"
    by (simp_all add: c_def length_replaceAll_single count_replaceAll_single)
  have "length (escapeTableCell t) = length c + count_list c CHR ''|''"
    by (simp add: escapeTableCell_def a_def b_def c_def length_replaceAll_single)
  with la lb lc show ?thesis by simp
qed

lemma count_pipe_escapeTableCell:
  "count_list (escapeTableCell t) CHR ''|'' = count_list t CHR ''|''"
  by (simp add: escapeTableCell_def count_replaceAll_pipe count_replaceAll_single)

lemma concat_map_concat_map:
  "concat (map f (concat (map g s))) = concat (map (\<lambda>x. concat (map f (g x))) s)"
  by (induction s) simp_all

lemma escapeLinkUrl_enc: "escapeLinkUrl s = concat (map enc s)"
  unfolding escapeLinkUrl_def Let_def replaceAll_single concat_map_concat_map
  by (rule arg_cong [where f = concat], rule map_cong) (simp_all add: enc_def)

text \<open>
  A two-character lookahead \<open>[p, q]\<close> without a percent sign is found in the coded
  string only where it stands in the original: every code starts with its own character
  or with a percent sign.
\<close>

lemma prefix2_coded:
  assumes "prefix [p, q] (concat (map g s))" "p \<noteq> CHR ''%''" "q \<noteq> CHR ''%''"
    and g: "\<And>x. g x = [x] \<or> (\<exists>u v. g x = [CHR ''%'', u, v])"
  shows "prefix [p, q] s"
proof (cases s)
  case Nil
  with assms show ?thesis by simp
next
  case (Cons y s')
  from g [of y] assms(1,2) Cons have gy: "g y = [y]" "y = p" by auto
  show ?thesis
  proof (cases s')
    case Nil
    with assms(1) Cons gy show ?thesis by simp
  next
    case (Cons z s'')
    from g [of z] assms(3) assms(1) gy Cons \<open>s = y # s'\<close> have "z = q" by auto
    with gy Cons \<open>s = y # s'\<close> show ?thesis by simp
  qed
qed

text \<open>
  One replacement of \<^verbatim>\<open>unescapeLinkUrl\<close> on a coded string: where the original does not
  contain the escape sequence of \<open>k\<close>, replacing that sequence decodes exactly the
  occurrences of \<open>k\<close> and leaves every other code alone.
\<close>

lemma unescape_stage:
  assumes nosub: "\<not> sublist [CHR ''%'', p, q] s"
    and pq: "p \<noteq> CHR ''%''" "q \<noteq> CHR ''%''"
    and gk: "g k = [CHR ''%'', p, q]"
    and g: "\<And>x. x \<noteq> k \<Longrightarrow> g x = [x] \<or>
              (\<exists>u v. g x = [CHR ''%'', u, v] \<and> u \<noteq> CHR ''%'' \<and> v \<noteq> CHR ''%'' \<and> (u, v) \<noteq> (p, q))"
  shows "replaceAll [CHR ''%'', p, q] [k] (concat (map g s)) = concat (map (g (k := [k])) s)"
  using nosub
proof (induction s)
  case Nil
  show ?case by simp
next
  case (Cons x s)
  from Cons.prems have np: "\<not> prefix [CHR ''%'', p, q] (x # s)"
    and ns: "\<not> sublist [CHR ''%'', p, q] s"
    by (simp_all add: sublist_Cons_right)
  note IH = Cons.IH [OF ns]
  have gall: "g y = [y] \<or> (\<exists>u v. g y = [CHR ''%'', u, v])" for y
    using g [of y] gk by (cases "y = k") auto
  show ?case
  proof (cases "x = k")
    case True
    with gk IH show ?thesis by simp
  next
    case False
    from g [OF False] show ?thesis
    proof
      assume gx: "g x = [x]"
      have "\<not> prefix [CHR ''%'', p, q] (x # concat (map g s))"
      proof
        assume pr: "prefix [CHR ''%'', p, q] (x # concat (map g s))"
        then have "x = CHR ''%''" "prefix [p, q] (concat (map g s))" by simp_all
        with prefix2_coded [OF _ pq gall] have "prefix [p, q] s" by blast
        with \<open>x = CHR ''%''\<close> np show False by simp
      qed
      with gx False IH show ?thesis by simp
    next
      assume "\<exists>u v. g x = [CHR ''%'', u, v] \<and> u \<noteq> CHR ''%'' \<and> v \<noteq> CHR ''%'' \<and> (u, v) \<noteq> (p, q)"
      then obtain u v where "g x = [CHR ''%'', u, v]" "u \<noteq> CHR ''%''" "v \<noteq> CHR ''%''" "(u, v) \<noteq> (p, q)"
        by blast
      with False IH show ?thesis by auto
    qed
  qed
qed

lemma unescape_stage1:
  assumes "\<not> sublist ''%28'' s"
  shows "replaceAll ''%28'' ''('' (concat (map enc s)) = concat (map enc1 s)"
proof -
  have "enc (CHR ''('' := ''('') = enc1" by (rule ext) (simp add: enc_def enc1_def)
  with unescape_stage [of "CHR ''2''" "CHR ''8''" s enc "CHR ''(''", OF assms] show ?thesis
    by (simp add: enc_def)
qed

lemma unescape_stage2:
  assumes "\<not> sublist ''%29'' s"
  shows "replaceAll ''%29'' '')'' (concat (map enc1 s)) = concat (map enc2 s)"
proof -
  have "enc1 (CHR '')'' := '')'') = enc2" by (rule ext) (simp add: enc1_def enc2_def)
  with unescape_stage [of "CHR ''2''" "CHR ''9''" s enc1 "CHR '')''", OF assms] show ?thesis
    by (simp add: enc1_def)
qed

lemma unescape_stage3:
  assumes "\<not> sublist ''%20'' s"
  shows "replaceAll ''%20'' '' '' (concat (map enc2 s)) = s"
proof -
  have "enc2 (CHR '' '' := '' '') = (\<lambda>x. [x])" by (rule ext) (simp add: enc2_def)
  with unescape_stage [of "CHR ''2''" "CHR ''0''" s enc2 "CHR '' ''", OF assms] show ?thesis
    by (simp add: enc2_def)
qed

section \<open>Facts about list lines\<close>

lemma isBullet_not_space: "isBullet b \<Longrightarrow> \<not> isWhiteSpace b"
  by (auto simp: isBullet_def isWhiteSpace_def)

lemma isBullet_not_digit: "isBullet b \<Longrightarrow> \<not> isDigit b"
  by (auto simp: isBullet_def isDigit_def)

lemma isDigit_not_space: "isDigit b \<Longrightarrow> \<not> isWhiteSpace b"
  by (auto simp: isDigit_def isWhiteSpace_def)

lemma isDigit_not_bullet: "isDigit b \<Longrightarrow> \<not> isBullet b"
  by (auto simp: isBullet_def isDigit_def)

lemma checkboxToken_Some:
  "checkboxToken s = Some (t, r) \<Longrightarrow>
   \<exists>b m. s = b # CHR '' '' # CHR ''['' # m # CHR '']'' # r
         \<and> t = [b, CHR '' '', CHR ''['', m, CHR '']'']
         \<and> isBullet b \<and> (m = CHR ''x'' \<or> m = CHR '' '')"
  by (erule checkboxToken.elims) (auto split: if_splits)

lemma checkboxToken_not_bullet: "\<not> isBullet b \<Longrightarrow> checkboxToken (b # s) = None"
  by (cases "checkboxToken (b # s)") (auto dest: checkboxToken_Some)

lemma checkboxToken_bullet_ws:
  assumes ws: "list_all isWhiteSpace ws"
  shows "checkboxToken (b # ws) = None"
proof (cases "checkboxToken (b # ws)")
  case None
  then show ?thesis by simp
next
  case (Some a)
  obtain t r where "a = (t, r)" by (cases a)
  with Some checkboxToken_Some [of "b # ws" t r] ws show ?thesis
    by (auto simp: isWhiteSpace_def)
qed

lemma ordinalToken_not_digit: "\<not> isDigit b \<Longrightarrow> ordinalToken (b # s) = None"
  by (simp add: ordinalToken_def)

lemma ordinalToken_digits:
  assumes "ds \<noteq> []" "list_all isDigit ds" "p = CHR ''.'' \<or> p = CHR '')''"
  shows "ordinalToken (ds @ p # r) = Some (ds @ [p], ds, r)"
proof -
  have np: "\<not> isDigit p" using assms(3) by (auto simp: isDigit_def)
  have all: "\<And>x. x \<in> set ds \<Longrightarrow> isDigit x" using assms(2) by (simp add: list_all_iff)
  have "takeWhile isDigit (ds @ p # r) = ds" "dropWhile isDigit (ds @ p # r) = p # r"
    using np all by (simp_all add: takeWhile_append2 dropWhile_append2)
  with assms show ?thesis by (simp add: ordinalToken_def)
qed

lemma whiteSpaceToEnd_Nil: "\<not> whiteSpaceToEnd []"
  by (simp add: whiteSpaceToEnd_def)

text \<open>The three shapes of a bullet token.\<close>

lemma isBulletToken_cases:
  assumes "isBulletToken t"
  obtains (bullet) b where "t = [b]" "isBullet b"
    | (checkbox) b m where "t = [b, CHR '' '', CHR ''['', m, CHR '']'']" "isBullet b"
        "m = CHR ''x'' \<or> m = CHR '' ''"
    | (ordinal) ds p where "t = ds @ [p]" "ds \<noteq> []" "list_all isDigit ds"
        "p = CHR ''.'' \<or> p = CHR '')''"
proof -
  have c1: "\<exists>b. t = [b] \<and> isBullet b" if "length t = 1" "isBullet (t ! 0)"
    using that by (cases t) auto
  have c2: "\<exists>b m. t = [b, CHR '' '', CHR ''['', m, CHR '']''] \<and> isBullet b
              \<and> (m = CHR ''x'' \<or> m = CHR '' '')"
    if l: "length t = 5" and rest: "isBullet (t ! 0)" "t ! 1 = CHR '' ''" "t ! 2 = CHR ''[''"
      "t ! 3 = CHR ''x'' \<or> t ! 3 = CHR '' ''" "t ! 4 = CHR '']''"
  proof -
    from l obtain a b c d e where "t = [a, b, c, d, e]"
      by (auto simp: length_Suc_conv eval_nat_numeral)
    with rest show ?thesis by auto
  qed
  have c3: "\<exists>ds p. t = ds @ [p] \<and> ds \<noteq> [] \<and> list_all isDigit ds
              \<and> (p = CHR ''.'' \<or> p = CHR '')'')"
    if l: "2 \<le> length t" and d: "list_all isDigit (butlast t)"
      and p: "last t = CHR ''.'' \<or> last t = CHR '')''"
  proof -
    from l have ne: "t \<noteq> []" by auto
    then have t: "t = butlast t @ [last t]" by simp
    from l have "butlast t \<noteq> []" by (cases t) auto
    with t d p show ?thesis by blast
  qed
  from assms c1 c2 c3 that show thesis
    unfolding isBulletToken_def by blast
qed

text \<open>
  Numbering: a line that starts with a bullet and a white space matches \<^verbatim>\<open>listRegex\<close> without
  group 3, so \<^verbatim>\<open>Number(undefined)\<close> is what \<^verbatim>\<open>olLineNumber\<close> returns.
\<close>

lemma olLineNumber_bullet:
  assumes "isBullet b" "isWhiteSpace w"
  shows "olLineNumber (b # w # rest) = NaN"
proof -
  have dw: "dropWhile isWhiteSpace (b # w # rest) = b # w # rest"
    using assms by (simp add: isBullet_not_space)
  have "listAlt1 (b # w # rest) \<noteq> None \<or> listAlt2 (b # w # rest) \<noteq> None"
    using assms by (simp add: listAlt2_def)
  moreover have "listAlt1 (b # w # rest) = Some r \<Longrightarrow> fst (snd r) = None" for r
    by (auto simp: listAlt1_def split: option.splits list.splits if_splits)
  moreover have "listAlt2 (b # w # rest) = Some r \<Longrightarrow> fst (snd r) = None" for r
    by (auto simp: listAlt2_def split: option.splits list.splits if_splits)
  ultimately show ?thesis
    unfolding olLineNumber_def matchListRegex_def dw Let_def
    by (auto simp: Number_def split: option.splits prod.splits)
qed

text \<open>
  The lines that \<^verbatim>\<open>listRegex\<close> matches: white space, a bullet token, one white-space
  character, anything.
\<close>

lemma dropWhile_ws_token:
  assumes "list_all isWhiteSpace ws" "\<not> isWhiteSpace c"
  shows "dropWhile isWhiteSpace (ws @ c # r) = c # r" "takeWhile isWhiteSpace (ws @ c # r) = ws"
  using assms by (simp_all add: list_all_iff dropWhile_append2 takeWhile_append2)

lemma isBulletToken_start:
  assumes "isBulletToken t"
  obtains c t' where "t = c # t'" "\<not> isWhiteSpace c"
  using assms
proof (cases rule: isBulletToken_cases)
  case (bullet b)
  with that show ?thesis by (simp add: isBullet_not_space)
next
  case (checkbox b m)
  with that show ?thesis by (simp add: isBullet_not_space)
next
  case (ordinal ds p)
  then obtain d ds' where "ds = d # ds'" "isDigit d" by (cases ds) auto
  with ordinal that show ?thesis by (simp add: isDigit_not_space)
qed

lemma listAlt_token:
  assumes "isBulletToken t" "isWhiteSpace w"
  shows "listAlt1 (t @ w # rest) \<noteq> None \<or> listAlt2 (t @ w # rest) \<noteq> None
         \<or> listAlt3 (t @ w # rest) \<noteq> None"
  using assms(1)
proof (cases rule: isBulletToken_cases)
  case (bullet b)
  with assms(2) show ?thesis by (simp add: listAlt2_def)
next
  case (checkbox b m)
  with assms(2) show ?thesis by (auto simp: listAlt1_def)
next
  case (ordinal ds p)
  with ordinalToken_digits [OF ordinal(2,3,4), of "w # rest"] assms(2) show ?thesis
    by (simp add: listAlt3_def)
qed

lemma bulletToken_Some: "bulletToken s = Some (t, r) \<Longrightarrow> \<exists>b. s = b # r \<and> t = [b] \<and> isBullet b"
  by (cases s) (auto split: if_splits)

lemma ordinalToken_Some:
  assumes "ordinalToken s = Some (t, ds, r)"
  shows "s = t @ r \<and> t = ds @ [last t] \<and> ds \<noteq> [] \<and> list_all isDigit ds
         \<and> (last t = CHR ''.'' \<or> last t = CHR '')'')"
proof -
  from assms obtain p where d: "dropWhile isDigit s = p # r" and ds: "ds = takeWhile isDigit s"
    and ne: "ds \<noteq> []" and p: "p = CHR ''.'' \<or> p = CHR '')''" and t: "t = ds @ [p]"
    by (auto simp: ordinalToken_def Let_def split: list.splits if_splits)
  have "s = takeWhile isDigit s @ dropWhile isDigit s" by simp
  with d ds t have "s = t @ r" by simp
  moreover have "list_all isDigit ds"
    unfolding ds list_all_iff by (auto dest: set_takeWhileD)
  ultimately show ?thesis using t ne p by simp
qed

lemma listAlt_Some:
  assumes "listAlt1 s = Some (tok, g3, g4, rest) \<or> listAlt2 s = Some (tok, g3, g4, rest)
           \<or> listAlt3 s = Some (tok, g3, g4, rest)"
  shows "\<exists>t w. s = t @ w # rest \<and> tok = t @ [w] \<and> isBulletToken t \<and> isWhiteSpace w"
  using assms
proof (elim disjE)
  assume "listAlt1 s = Some (tok, g3, g4, rest)"
  then obtain t w where c: "checkboxToken s = Some (t, w # rest)" and w: "isWhiteSpace w"
    and tok: "tok = t @ [w]"
    by (auto simp: listAlt1_def split: option.splits list.splits if_splits)
  from checkboxToken_Some [OF c] obtain b m where "s = t @ w # rest"
    "t = [b, CHR '' '', CHR ''['', m, CHR '']'']" "isBullet b" "m = CHR ''x'' \<or> m = CHR '' ''"
    by auto
  with w tok show ?thesis by (auto simp: isBulletToken_def)
next
  assume "listAlt2 s = Some (tok, g3, g4, rest)"
  then obtain t w where c: "bulletToken s = Some (t, w # rest)" and w: "isWhiteSpace w"
    and tok: "tok = t @ [w]"
    by (auto simp: listAlt2_def split: option.splits list.splits if_splits)
  from bulletToken_Some [OF c] obtain b where "s = t @ w # rest" "t = [b]" "isBullet b"
    by auto
  with w tok show ?thesis by (auto simp: isBulletToken_def)
next
  assume "listAlt3 s = Some (tok, g3, g4, rest)"
  then obtain t ds w where c: "ordinalToken s = Some (t, ds, w # rest)" and w: "isWhiteSpace w"
    and tok: "tok = t @ [w]"
    by (auto simp: listAlt3_def split: option.splits list.splits if_splits)
  from ordinalToken_Some [OF c] have s: "s = t @ w # rest" and t: "t = ds @ [last t]"
    and ds: "ds \<noteq> []" "list_all isDigit ds" and p: "last t = CHR ''.'' \<or> last t = CHR '')''"
    by simp_all
  from t have bl: "butlast t = ds"
    by (metis butlast_snoc)
  from ds(1) have "1 \<le> length ds" by (cases ds) simp_all
  moreover from t have "length t = Suc (length ds)"
    by (metis length_append_singleton)
  ultimately have "2 \<le> length t" by simp
  note this bl
  with ds p have "isBulletToken t" by (simp add: isBulletToken_def)
  with s w tok show ?thesis by blast
qed

lemma isListItem_iff:
  "isListItem line \<longleftrightarrow>
   (\<exists>ws t w rest. line = ws @ t @ w # rest \<and> list_all isWhiteSpace ws \<and> isBulletToken t
      \<and> isWhiteSpace w)"
proof
  assume "isListItem line"
  then obtain tok g3 g4 rest where
    "listAlt1 (dropWhile isWhiteSpace line) = Some (tok, g3, g4, rest)
     \<or> listAlt2 (dropWhile isWhiteSpace line) = Some (tok, g3, g4, rest)
     \<or> listAlt3 (dropWhile isWhiteSpace line) = Some (tok, g3, g4, rest)"
    by (auto simp: isListItem_def matchListRegex_def Let_def split: option.splits)
  from listAlt_Some [OF this] obtain t w where
    d: "dropWhile isWhiteSpace line = t @ w # rest" and t: "isBulletToken t" "isWhiteSpace w"
    by blast
  have "line = takeWhile isWhiteSpace line @ dropWhile isWhiteSpace line" by simp
  with d have "line = takeWhile isWhiteSpace line @ t @ w # rest" by simp
  moreover have "list_all isWhiteSpace (takeWhile isWhiteSpace line)"
    unfolding list_all_iff by (auto dest: set_takeWhileD)
  ultimately show "\<exists>ws t w rest. line = ws @ t @ w # rest \<and> list_all isWhiteSpace ws
      \<and> isBulletToken t \<and> isWhiteSpace w"
    using t by blast
next
  assume "\<exists>ws t w rest. line = ws @ t @ w # rest \<and> list_all isWhiteSpace ws \<and> isBulletToken t
      \<and> isWhiteSpace w"
  then obtain ws t w rest where line: "line = ws @ t @ w # rest" and ws: "list_all isWhiteSpace ws"
    and t: "isBulletToken t" and w: "isWhiteSpace w"
    by blast
  from t obtain c t' where c: "t = c # t'" "\<not> isWhiteSpace c" by (rule isBulletToken_start)
  with dropWhile_ws_token(1) [OF ws c(2), of "t' @ w # rest"] line
  have d: "dropWhile isWhiteSpace line = t @ w # rest" by simp
  from listAlt_token [OF t w, of rest] show "isListItem line"
    unfolding isListItem_def matchListRegex_def Let_def d
    by (auto split: option.splits)
qed

text \<open>
  The three outcomes of \<^verbatim>\<open>olLineNumber\<close>: 0 on a line that is not a list item, the ordinal
  on an ordered item, and \<^verbatim>\<open>NaN\<close> on an item with a bullet.
\<close>

lemma olLineNumber_not_list: "\<not> isListItem line \<Longrightarrow> olLineNumber line = Num 0"
  by (simp add: isListItem_def olLineNumber_def)

lemma olLineNumber_ordinal:
  assumes "list_all isWhiteSpace ws" "ds \<noteq> []" "list_all isDigit ds"
    "p = CHR ''.'' \<or> p = CHR '')''" "isWhiteSpace w"
  shows "olLineNumber (ws @ ds @ p # w # rest) = Number (Some ds)"
proof -
  from assms(2,3) obtain d ds' where ds: "ds = d # ds'" "isDigit d" by (cases ds) auto
  then have nd: "\<not> isWhiteSpace d" "\<not> isBullet d"
    by (simp_all add: isDigit_not_space isDigit_not_bullet)
  from dropWhile_ws_token(1) [OF assms(1) nd(1), of "ds' @ p # w # rest"] ds
  have dw: "dropWhile isWhiteSpace (ws @ ds @ p # w # rest) = ds @ p # w # rest" by simp
  have a1: "listAlt1 (ds @ p # w # rest) = None" "listAlt2 (ds @ p # w # rest) = None"
    using ds nd by (simp_all add: listAlt1_def listAlt2_def checkboxToken_not_bullet)
  have a3: "listAlt3 (ds @ p # w # rest) = Some (ds @ [p, w], Some ds, Some [p, w], rest)"
    using ordinalToken_digits [OF assms(2,3,4), of "w # rest"] assms(5)
    by (simp add: listAlt3_def)
  show ?thesis
    unfolding olLineNumber_def matchListRegex_def Let_def dw a1 a3 by simp
qed

section \<open>Facts about tables\<close>

lemma length_filter_count: "length (filter (\<lambda>c. c = x) s) = count_list s x"
  by (induction s) simp_all

lemma matchAll_length:
  "length (case matchAll cls s of Some ms \<Rightarrow> ms | None \<Rightarrow> []) = length (filter cls s)"
  by (simp add: matchAll_def Let_def)

lemma index_first: "index s 0 = Some c \<longleftrightarrow> prefix [c] s"
  by (cases s) (auto simp: index_def)

lemma index_last: "index s (int (length s) - 1) = Some c \<longleftrightarrow> suffix [c] s"
proof (cases "s = []")
  case True
  then show ?thesis by (simp add: index_def)
next
  case False
  then have s: "s = butlast s @ [last s]" by simp
  have n: "nat (int (length s) - 1) = length s - 1" by simp
  from False have "index s (int (length s) - 1) = Some (last s)"
    by (simp add: index_def n last_conv_nth)
  moreover have "suffix [c] (butlast s @ [last s]) \<longleftrightarrow> last s = c"
    using snoc_suffix_snoc [of "[]" c "butlast s" "last s"] by auto
  then have "suffix [c] s \<longleftrightarrow> last s = c"
    using s by simp
  ultimately show ?thesis by auto
qed

lemma matchAll_None: "matchAll cls s = None \<longleftrightarrow> (\<forall>c\<in>set s. \<not> cls c)"
  by (auto simp: matchAll_def Let_def filter_empty_conv)

section \<open>Facts about titles\<close>

lemma split_first: "\<exists>ps. split sep s = takeWhile (\<lambda>c. c \<noteq> sep) s # ps"
  by (induction s) auto

lemma titleFromBody_eq:
  assumes "body \<noteq> []"
  shows "titleFromBody (Some body) =
    Inr (take 80 (replaceGroup1 emptyMdLinkRegex (replaceGroup1 mdLinkRegex
      (dropWhile isFilterChar (trim (takeWhile (\<lambda>c. c \<noteq> CHR 0x0A) (trim body)))))))"
proof -
  obtain ps where "split CHR 0x0A (trim body) = takeWhile (\<lambda>c. c \<noteq> CHR 0x0A) (trim body) # ps"
    using split_first by blast
  with assms show ?thesis
    by (simp add: titleFromBody_def)
qed

section \<open>Facts about url extraction\<close>

text \<open>The walk reads \<^verbatim>\<open>includeImages\<close> and \<^verbatim>\<open>includeAnchors\<close> of the options, nothing else.\<close>

lemma searchToken_options:
  assumes ii: "includeImages o1 = includeImages o2" and ia: "includeAnchors o1 = includeAnchors o2"
  shows "searchToken o1 imgUrls ancUrls t = searchToken o2 imgUrls ancUrls t"
proof (induction t)
  case (Token ty as cont chs)
  have ch: "map (searchToken o1 imgUrls ancUrls) chs = map (searchToken o2 imgUrls ancUrls) chs"
    using Token.IH by (intro map_cong) simp_all
  show ?case
    unfolding searchToken.simps ch ii ia ..
qed

lemma searchUrls_options:
  assumes "includeImages o1 = includeImages o2" "includeAnchors o1 = includeAnchors o2"
  shows "searchUrls o1 imgUrls ancUrls ts = searchUrls o2 imgUrls ancUrls ts"
proof -
  have "searchToken o1 imgUrls ancUrls = searchToken o2 imgUrls ancUrls"
    by (rule ext) (rule searchToken_options [OF assms])
  then show ?thesis by (simp add: searchUrls_def)
qed

section \<open>Claims\<close>

text \<open>
  C1. For every url \<open>u\<close> that contains none of the literal sequences \<^verbatim>\<open>%28\<close>, \<^verbatim>\<open>%29\<close>, \<^verbatim>\<open>%20\<close>,
  \<^verbatim>\<open>unescapeLinkUrl(escapeLinkUrl(u))\<close> is \<open>u\<close>.
\<close>

theorem unescapeLinkUrl_escapeLinkUrl:
  assumes "\<not> sublist ''%28'' u" "\<not> sublist ''%29'' u" "\<not> sublist ''%20'' u"
  shows "unescapeLinkUrl (escapeLinkUrl u) = u"
  using assms
  by (simp add: unescapeLinkUrl_def escapeLinkUrl_enc unescape_stage1 unescape_stage2
      unescape_stage3 del: replaceAll.simps)

theorem unescapeLinkUrl_escapeLinkUrl_witness:
  "\<not> sublist ''%28'' ''a (b) 100%''
   \<and> \<not> sublist ''%29'' ''a (b) 100%''
   \<and> \<not> sublist ''%20'' ''a (b) 100%''
   \<and> escapeLinkUrl ''a (b) 100%'' = ''a%20%28b%29%20100%''
   \<and> unescapeLinkUrl (escapeLinkUrl ''a (b) 100%'') = ''a (b) 100%''"
proof -
  have h: "\<not> sublist ''%28'' ''a (b) 100%''" "\<not> sublist ''%29'' ''a (b) 100%''"
    "\<not> sublist ''%20'' ''a (b) 100%''"
    by (simp_all add: sublist_Cons_right)
  have e: "escapeLinkUrl ''a (b) 100%'' = ''a%20%28b%29%20100%''"
    by (simp add: escapeLinkUrl_def)
  from h e unescapeLinkUrl_escapeLinkUrl [OF h] show ?thesis by simp
qed


text \<open>
  C8. \<^verbatim>\<open>escapeTableCell\<close> is not idempotent. On the two-character string backslash, pipe a
  second application gives a different string; on the one-character string pipe the first
  application gives backslash, pipe and the second gives backslash, backslash, pipe; and
  for every text that contains a pipe the second application differs from the first,
  since every application puts a backslash in front of every pipe.
\<close>

theorem escapeTableCell_not_idempotent:
  "escapeTableCell (escapeTableCell [CHR 0x5C, CHR ''|'']) \<noteq> escapeTableCell [CHR 0x5C, CHR ''|'']
   \<and> escapeTableCell ''|'' = [CHR 0x5C, CHR ''|'']
   \<and> escapeTableCell [CHR 0x5C, CHR ''|''] = [CHR 0x5C, CHR 0x5C, CHR ''|'']
   \<and> (\<forall>t. CHR ''|'' \<in> set t \<longrightarrow> escapeTableCell (escapeTableCell t) \<noteq> escapeTableCell t)"
proof -
  have gen: "escapeTableCell (escapeTableCell t) \<noteq> escapeTableCell t" if "CHR ''|'' \<in> set t" for t
  proof -
    from that have "count_list t CHR ''|'' > 0"
      by (metis count_list_0_iff gr0I)
    then have "count_list (escapeTableCell t) CHR ''|'' > 0"
      by (simp add: count_pipe_escapeTableCell)
    with length_escapeTableCell [of "escapeTableCell t"]
    have "length (escapeTableCell (escapeTableCell t)) > length (escapeTableCell t)"
      by linarith
    then show ?thesis by auto
  qed
  have e1: "escapeTableCell ''|'' = [CHR 0x5C, CHR ''|'']"
    by (simp add: escapeTableCell_def)
  have e2: "escapeTableCell [CHR 0x5C, CHR ''|''] = [CHR 0x5C, CHR 0x5C, CHR ''|'']"
    by (simp add: escapeTableCell_def)
  have "escapeTableCell (escapeTableCell [CHR 0x5C, CHR ''|'']) \<noteq> escapeTableCell [CHR 0x5C, CHR ''|'']"
    by (rule gen) simp
  with e1 e2 gen show ?thesis by blast
qed

theorem escapeTableCell_not_idempotent_witness:
  "CHR ''|'' \<in> set ''a|b'' \<and> escapeTableCell (escapeTableCell ''a|b'') \<noteq> escapeTableCell ''a|b''"
  using escapeTableCell_not_idempotent by simp

text \<open>
  C2. \<^verbatim>\<open>olLineNumber(line)\<close> on the lines of the claim: the ordered-list line \<^verbatim>\<open>1. item\<close>
  gives 1 and the line \<^verbatim>\<open>item\<close>, not a list line, gives 0; the unordered-list line
  \<^verbatim>\<open>- item\<close> matches \<^verbatim>\<open>listRegex\<close> with group 3 undefined and gives \<^verbatim>\<open>NaN\<close>, not 0.
\<close>

theorem olLineNumber_unordered_is_NaN:
  "olLineNumber ''- item'' = NaN \<and> olLineNumber ''- item'' \<noteq> Num 0
   \<and> olLineNumber ''1. item'' = Num 1 \<and> olLineNumber ''item'' = Num 0"
proof -
  have a: "olLineNumber ''- item'' = NaN"
    by (rule olLineNumber_bullet) (simp_all add: isBullet_def isWhiteSpace_def)
  have ot: "ordinalToken ''1. item'' = Some (''1.'', ''1'', '' item'')"
    using ordinalToken_digits [of "''1''" "CHR ''.''" "'' item''"] by (simp add: isDigit_def)
  have m: "matchListRegex ''1. item'' =
      Some \<lparr>fullMatch = ''1. '', group1 = [], group2 = ''1. '', group3 = Some ''1'',
            group4 = Some ''. '', group5 = []\<rparr>"
    by (simp add: matchListRegex_def listAlt1_def listAlt2_def listAlt3_def ot isWhiteSpace_def
        isBullet_def)
  have n: "Number (Some ''1'') = Num 1"
    by (simp add: Number_def decimal_def)
  have b: "olLineNumber ''1. item'' = Num 1"
    by (simp add: olLineNumber_def m n)
  have c: "olLineNumber ''item'' = Num 0"
    by (simp add: olLineNumber_def matchListRegex_def listAlt1_def listAlt2_def listAlt3_def
        isWhiteSpace_def isBullet_def ordinalToken_def isDigit_def)
  from a b c show ?thesis by simp
qed

text \<open>
  C10. \<^verbatim>\<open>isEmptyListItem\<close> requires white space after the bullet token: a line that is
  exactly a bullet token (\<^verbatim>\<open>-\<close>, \<^verbatim>\<open>*\<close>, \<^verbatim>\<open>1.\<close>, \<^verbatim>\<open>- [x]\<close>) is not an empty list item, and
  the same token followed by at least one white-space character and nothing else is one.
\<close>

theorem isEmptyListItem_needs_white_space:
  assumes "isBulletToken t"
  shows "\<not> isEmptyListItem t
         \<and> (\<forall>ws. ws \<noteq> [] \<and> list_all isWhiteSpace ws \<longrightarrow> isEmptyListItem (t @ ws))"
  using assms
proof (cases rule: isBulletToken_cases)
  case (bullet b)
  have dw: "dropWhile isWhiteSpace (t @ r) = t @ r" for r
    using bullet by (simp add: isBullet_not_space)
  have cb: "checkboxToken (t @ r) = None" if "list_all isWhiteSpace r" for r
    using bullet that by (simp add: checkboxToken_bullet_ws)
  have bt: "bulletToken (t @ r) = Some (t, r)" for r
    using bullet by simp
  have ot: "ordinalToken (t @ r) = None" for r
    using bullet by (simp add: ordinalToken_not_digit isBullet_not_digit)
  have a: "\<not> isEmptyListItem t"
    using dw [of "[]"] cb [of "[]"] bt [of "[]"] ot [of "[]"]
    by (simp add: isEmptyListItem_def whiteSpaceToEnd_Nil)
  have b: "isEmptyListItem (t @ ws)" if "ws \<noteq> []" "list_all isWhiteSpace ws" for ws
    using that by (simp add: isEmptyListItem_def dw cb bt ot whiteSpaceToEnd_def)
  from a b show ?thesis by blast
next
  case (checkbox b m)
  have dw: "dropWhile isWhiteSpace (t @ r) = t @ r" for r
    using checkbox by (simp add: isBullet_not_space)
  have cb: "checkboxToken (t @ r) = Some (t, r)" for r
    using checkbox by auto
  have bt: "bulletToken (t @ r) = Some ([b], CHR '' '' # CHR ''['' # m # CHR '']'' # r)" for r
    using checkbox by simp
  have nw: "\<not> whiteSpaceToEnd (CHR '' '' # CHR ''['' # m # CHR '']'' # r)" for r
    by (simp add: whiteSpaceToEnd_def isWhiteSpace_def)
  have ot: "ordinalToken (t @ r) = None" for r
    using checkbox by (simp add: ordinalToken_not_digit isBullet_not_digit)
  have a: "\<not> isEmptyListItem t"
    using dw [of "[]"] cb [of "[]"] bt [of "[]"] ot [of "[]"] nw [of "[]"]
    by (simp add: isEmptyListItem_def whiteSpaceToEnd_Nil)
  have b: "isEmptyListItem (t @ ws)" if "ws \<noteq> []" "list_all isWhiteSpace ws" for ws
    using that by (simp add: isEmptyListItem_def dw cb whiteSpaceToEnd_def)
  from a b show ?thesis by blast
next
  case (ordinal ds p)
  from ordinal obtain d ds' where ds: "ds = d # ds'" "isDigit d" by (cases ds) auto
  have dw: "dropWhile isWhiteSpace (t @ r) = t @ r" for r
    using ordinal ds by (simp add: isDigit_not_space)
  have cb: "checkboxToken (t @ r) = None" "bulletToken (t @ r) = None" for r
    using ordinal ds by (simp_all add: checkboxToken_not_bullet isDigit_not_bullet)
  have ot: "ordinalToken (t @ r) = Some (t, ds, r)" for r
    using ordinalToken_digits [OF ordinal(2,3,4), of r] ordinal(1) by simp
  have a: "\<not> isEmptyListItem t"
    using dw [of "[]"] cb [of "[]"] ot [of "[]"]
    by (simp add: isEmptyListItem_def whiteSpaceToEnd_Nil)
  have b: "isEmptyListItem (t @ ws)" if "ws \<noteq> []" "list_all isWhiteSpace ws" for ws
    using that by (simp add: isEmptyListItem_def dw cb ot whiteSpaceToEnd_def)
  from a b show ?thesis by blast
qed

theorem isEmptyListItem_needs_white_space_witness:
  "(isBulletToken ''-'' \<and> \<not> isEmptyListItem ''-'' \<and> isEmptyListItem ''- '')
   \<and> (isBulletToken ''*'' \<and> \<not> isEmptyListItem ''*'' \<and> isEmptyListItem (''*'' @ [CHR 0x09, CHR '' '']))
   \<and> (isBulletToken ''1.'' \<and> \<not> isEmptyListItem ''1.'' \<and> isEmptyListItem ''1. '')
   \<and> (isBulletToken ''- [x]'' \<and> \<not> isEmptyListItem ''- [x]'' \<and> isEmptyListItem ''- [x] '')"
proof -
  have t: "isBulletToken ''-''" "isBulletToken ''*''" "isBulletToken ''1.''" "isBulletToken ''- [x]''"
    by (simp_all add: isBulletToken_def isBullet_def isDigit_def)
  have w: "'' '' \<noteq> [] \<and> list_all isWhiteSpace '' ''"
    "[CHR 0x09, CHR '' ''] \<noteq> [] \<and> list_all isWhiteSpace [CHR 0x09, CHR '' '']"
    by (simp_all add: isWhiteSpace_def)
  from t w
    isEmptyListItem_needs_white_space [OF t(1)]
    isEmptyListItem_needs_white_space [OF t(2)]
    isEmptyListItem_needs_white_space [OF t(3)]
    isEmptyListItem_needs_white_space [OF t(4)]
  have "\<not> isEmptyListItem ''-''" "isEmptyListItem (''-'' @ '' '')"
    "\<not> isEmptyListItem ''*''" "isEmptyListItem (''*'' @ [CHR 0x09, CHR '' ''])"
    "\<not> isEmptyListItem ''1.''" "isEmptyListItem (''1.'' @ '' '')"
    "\<not> isEmptyListItem ''- [x]''" "isEmptyListItem (''- [x]'' @ '' '')"
    by blast+
  with t show ?thesis by simp
qed

text \<open>
  C4. \<^verbatim>\<open>createMarkdownTable\<close> on the one header \<^verbatim>\<open>{name: 'constructor', label: 'C'}\<close> and the one
  row \<^verbatim>\<open>{}\<close>: \<^verbatim>\<open>row['constructor']\<close> is the function that every object inherits, \<^verbatim>\<open>|| ''\<close> keeps
  it, and \<^verbatim>\<open>escapeTableCell\<close> raises a \<^verbatim>\<open>TypeError\<close> on it: no table is returned. A row with a
  property \<^verbatim>\<open>constructor\<close> of its own gives the three lines; so does a header whose name is
  missing in the row and not inherited, with the empty cell padded to five spaces; so does
  the example of the specification; and two headers, centred and right-justified, the
  second with a filter and without escaping, give four lines on two rows.
\<close>

theorem createMarkdownTable_inherited_key_raises:
  "createMarkdownTable padOther
     [\<lparr>name = ''constructor'', label = ''C'', filter' = None, disableEscape = None,
       justify = None\<rparr>]
     [Map.empty]
   = Inl TypeError
   \<and> getProperty Map.empty ''constructor'' = Other
   \<and> createMarkdownTable padOther
     [\<lparr>name = ''constructor'', label = ''C'', filter' = None, disableEscape = None,
       justify = None\<rparr>]
     [[''constructor'' \<mapsto> ''x|y'']]
   = Inr (''| C     |\<newline>| ----- |\<newline>| x'' @ [CHR 0x5C] @ ''|y  |'')
   \<and> createMarkdownTable padOther
     [\<lparr>name = ''a'', label = ''A'', filter' = None, disableEscape = None, justify = None\<rparr>]
     [Map.empty]
   = Inr ''| A     |\<newline>| ----- |\<newline>|       |''
   \<and> createMarkdownTable padOther
     [\<lparr>name = ''a'', label = ''A'', filter' = None, disableEscape = None, justify = None\<rparr>]
     [[''a'' \<mapsto> ''x'']]
   = Inr ''| A     |\<newline>| ----- |\<newline>| x     |''
   \<and> createMarkdownTable padOther
     [\<lparr>name = ''a'', label = ''Name'', filter' = None, disableEscape = None,
       justify = Some Center\<rparr>,
      \<lparr>name = ''b'', label = ''B'', filter' = Some (\<lambda>v. Text ''f''), disableEscape = Some True,
       justify = Some Right\<rparr>]
     [[''a'' \<mapsto> ''1<2'', ''b'' \<mapsto> ''x''], Map.empty]
   = Inr ''| Name  | B     |\<newline>| :---: | ----: |\<newline>| 1&lt;2 | f     |\<newline>|       | f     |''"
proof -
  let ?hC = "\<lparr>name = ''constructor'', label = ''C'', filter' = None, disableEscape = None,
       justify = None\<rparr>"
  let ?hA = "\<lparr>name = ''a'', label = ''A'', filter' = None, disableEscape = None,
       justify = None\<rparr>"
  have g: "getProperty Map.empty ''constructor'' = Other"
    by (simp add: getProperty_def objectPrototypeKeys_def)
  have ga: "getProperty Map.empty ''a'' = Undefined"
    by (simp add: getProperty_def objectPrototypeKeys_def)
  have hd: "foldl headerStep ([], []) [?hC] = ([''C    ''], [''-----''])"
    "foldl headerStep ([], []) [?hA] = ([''A    ''], [''-----''])"
    by (simp_all add: headerStep_def stringPadding_def minCellWidth_def eval_nat_numeral)
  have c1: "cellMd padOther Map.empty ?hC = Inl TypeError"
    by (simp add: cellMd_def g)
  have e: "escapeTableCell ''x|y'' = ''x'' @ [CHR 0x5C] @ ''|y''" "escapeTableCell [] = []"
    "escapeTableCell ''x'' = ''x''"
    by (simp_all add: escapeTableCell_def)
  have c2: "cellMd padOther [''constructor'' \<mapsto> ''x|y''] ?hC = Inr (''x'' @ [CHR 0x5C] @ ''|y '')"
    by (simp add: cellMd_def getProperty_def e stringPadding_def minCellWidth_def)
  have c3: "cellMd padOther Map.empty ?hA = Inr ''     ''"
    by (simp add: cellMd_def ga e stringPadding_def minCellWidth_def eval_nat_numeral)
  have c4: "cellMd padOther [''a'' \<mapsto> ''x''] ?hA = Inr ''x    ''"
    by (simp add: cellMd_def getProperty_def e stringPadding_def minCellWidth_def
        eval_nat_numeral)
  have t1: "createMarkdownTable padOther [?hC] [Map.empty] = Inl TypeError"
    unfolding createMarkdownTable_def hd by (simp add: c1)
  have t2: "createMarkdownTable padOther [?hC] [[''constructor'' \<mapsto> ''x|y'']]
      = Inr (''| C     |\<newline>| ----- |\<newline>| x'' @ [CHR 0x5C] @ ''|y  |'')"
    unfolding createMarkdownTable_def hd by (simp add: c2 tableLine_def)
  have t3: "createMarkdownTable padOther [?hA] [Map.empty]
      = Inr ''| A     |\<newline>| ----- |\<newline>|       |''"
    unfolding createMarkdownTable_def hd by (simp add: c3 tableLine_def)
  have t4: "createMarkdownTable padOther [?hA] [[''a'' \<mapsto> ''x'']]
      = Inr ''| A     |\<newline>| ----- |\<newline>| x     |''"
    unfolding createMarkdownTable_def hd by (simp add: c4 tableLine_def)
  let ?h1 = "\<lparr>name = ''a'', label = ''Name'', filter' = None, disableEscape = None,
       justify = Some Center\<rparr>"
  let ?h2 = "\<lparr>name = ''b'', label = ''B'', filter' = Some (\<lambda>v. Text ''f''),
       disableEscape = Some True, justify = Some Right\<rparr>"
  have hd2: "foldl headerStep ([], []) [?h1, ?h2] = ([''Name '', ''B    ''], ['':---:'', ''----:''])"
    by (simp add: headerStep_def stringPadding_def minCellWidth_def eval_nat_numeral)
  have e2: "escapeTableCell ''1<2'' = ''1&lt;2''"
    by (simp add: escapeTableCell_def)
  have k1: "cellMd padOther [''a'' \<mapsto> ''1<2'', ''b'' \<mapsto> ''x''] ?h1 = Inr ''1&lt;2''"
    by (simp add: cellMd_def getProperty_def e2 stringPadding_def minCellWidth_def)
  have k2: "cellMd padOther r ?h2 = Inr ''f    ''" for r
    by (simp add: cellMd_def stringPadding_def minCellWidth_def eval_nat_numeral)
  have k3: "cellMd padOther Map.empty ?h1 = Inr ''     ''"
    by (simp add: cellMd_def ga e stringPadding_def minCellWidth_def eval_nat_numeral)
  have t5: "createMarkdownTable padOther [?h1, ?h2] [[''a'' \<mapsto> ''1<2'', ''b'' \<mapsto> ''x''], Map.empty]
      = Inr ''| Name  | B     |\<newline>| :---: | ----: |\<newline>| 1&lt;2 | f     |\<newline>|       | f     |''"
    unfolding createMarkdownTable_def hd2 by (simp add: k1 k2 k3 tableLine_def)
  from t1 g t2 t3 t4 t5 show ?thesis by simp
qed

text \<open>
  C6. \<^verbatim>\<open>countTableColumns(line)\<close> is 0 for \<^verbatim>\<open>null\<close> and for the empty line; for any other line
  it is the number of \<^verbatim>\<open>|\<close> in the line, minus one if the trimmed line starts with \<^verbatim>\<open>|\<close>,
  minus one if the trimmed line ends with \<^verbatim>\<open>|\<close>, plus one. On \<^verbatim>\<open>| a | b |\<close> it is 2.
\<close>

theorem countTableColumns_spec:
  "countTableColumns None = 0
   \<and> countTableColumns (Some []) = 0
   \<and> (line \<noteq> [] \<longrightarrow>
        countTableColumns (Some line) =
          int (count_list line CHR ''|'')
          - (if prefix ''|'' (trim line) then 1 else 0)
          - (if suffix ''|'' (trim line) then 1 else 0)
          + 1)
   \<and> countTableColumns (Some ''| a | b |'') = 2"
proof -
  have g: "countTableColumns (Some l) =
          int (count_list l CHR ''|'')
          - (if prefix ''|'' (trim l) then 1 else 0)
          - (if suffix ''|'' (trim l) then 1 else 0)
          + 1" if "l \<noteq> []" for l
    using that
    by (simp add: countTableColumns_def Let_def matchAll_length length_filter_count
        index_first index_last)
  have t: "trim ''| a | b |'' = ''| a | b |''"
    by (simp add: trim_def isWhiteSpace_def)
  have "countTableColumns (Some ''| a | b |'') = 2"
    by (simp add: g t suffix_to_prefix)
  with g [of line] show ?thesis
    by (simp add: countTableColumns_def)
qed

theorem countTableColumns_spec_witness:
  "''a|b'' \<noteq> [] \<and> countTableColumns (Some ''a|b'') = 2
   \<and> '' | '' \<noteq> [] \<and> countTableColumns (Some '' | '') = 0"
proof -
  have t: "trim ''a|b'' = ''a|b''" "trim '' | '' = ''|''"
    by (simp_all add: trim_def isWhiteSpace_def)
  from countTableColumns_spec [of "''a|b''"] countTableColumns_spec [of "'' | ''"] t
  show ?thesis by (simp add: suffix_to_prefix)
qed

text \<open>
  C5. \<^verbatim>\<open>matchingTableDivider(header, divider)\<close> is false when either line is empty (or
  \<^verbatim>\<open>null\<close>) or the divider has a character other than white space, \<^verbatim>\<open>-\<close>, \<^verbatim>\<open>:\<close> and \<^verbatim>\<open>|\<close>;
  otherwise it is true exactly when the divider has more than zero columns and at least
  as many as the header. The two examples of the specification are included.
\<close>

theorem matchingTableDivider_spec:
  "(header = [] \<or> divider = []
      \<or> (\<exists>c\<in>set divider. \<not> (isWhiteSpace c \<or> c = CHR ''-'' \<or> c = CHR '':'' \<or> c = CHR ''|''))
     \<longrightarrow> \<not> matchingTableDivider (Some header) (Some divider))
   \<and> (\<not> (header = [] \<or> divider = []
      \<or> (\<exists>c\<in>set divider. \<not> (isWhiteSpace c \<or> c = CHR ''-'' \<or> c = CHR '':'' \<or> c = CHR ''|'')))
     \<longrightarrow> matchingTableDivider (Some header) (Some divider)
          = (0 < countTableColumns (Some divider)
             \<and> countTableColumns (Some header) \<le> countTableColumns (Some divider)))
   \<and> \<not> matchingTableDivider None d \<and> \<not> matchingTableDivider h None
   \<and> matchingTableDivider (Some ''| a | b |'') (Some ''| - | - |'')
   \<and> \<not> matchingTableDivider (Some ''| a | b |'') (Some ''| abc |'')"
proof -
  have inv: "matchAll (\<lambda>c. \<not> isDividerChar c) s \<noteq> None \<longleftrightarrow>
      (\<exists>c\<in>set s. \<not> (isWhiteSpace c \<or> c = CHR ''-'' \<or> c = CHR '':'' \<or> c = CHR ''|''))" for s
    by (simp add: matchAll_None isDividerChar_def)
  have g: "matchingTableDivider (Some x) (Some y) =
      (if x = [] \<or> y = []
          \<or> (\<exists>c\<in>set y. \<not> (isWhiteSpace c \<or> c = CHR ''-'' \<or> c = CHR '':'' \<or> c = CHR ''|''))
       then False
       else 0 < countTableColumns (Some y) \<and> countTableColumns (Some x) \<le> countTableColumns (Some y))"
    for x y
    unfolding matchingTableDivider_def Let_def inv by simp
  have n: "\<not> matchingTableDivider None d" "\<not> matchingTableDivider h None"
    by (simp_all add: matchingTableDivider_def split: option.splits)
  have t: "trim ''| a | b |'' = ''| a | b |''" "trim ''| - | - |'' = ''| - | - |''"
    by (simp_all add: trim_def isWhiteSpace_def)
  have c: "countTableColumns (Some ''| a | b |'') = 2" "countTableColumns (Some ''| - | - |'') = 2"
    by (simp_all add: countTableColumns_def Let_def matchAll_length index_first index_last t
        suffix_to_prefix)
  have e1: "matchingTableDivider (Some ''| a | b |'') (Some ''| - | - |'')"
    by (simp add: g c isWhiteSpace_def)
  have e2: "\<not> matchingTableDivider (Some ''| a | b |'') (Some ''| abc |'')"
    by (simp add: g isWhiteSpace_def)
  from g [of header divider] n e1 e2 show ?thesis
    by (auto split: if_splits)
qed

theorem matchingTableDivider_spec_witness:
  "(\<exists>c\<in>set ''|-x-|''. \<not> (isWhiteSpace c \<or> c = CHR ''-'' \<or> c = CHR '':'' \<or> c = CHR ''|''))
   \<and> \<not> matchingTableDivider (Some ''|a|'') (Some ''|-x-|'')
   \<and> \<not> (''a|b|c'' = [] \<or> ''-|-'' = []
        \<or> (\<exists>c\<in>set ''-|-''. \<not> (isWhiteSpace c \<or> c = CHR ''-'' \<or> c = CHR '':'' \<or> c = CHR ''|'')))
   \<and> countTableColumns (Some ''a|b|c'') = 3 \<and> countTableColumns (Some ''-|-'') = 2
   \<and> \<not> matchingTableDivider (Some ''a|b|c'') (Some ''-|-'')"
proof -
  have t: "trim ''a|b|c'' = ''a|b|c''" "trim ''-|-'' = ''-|-''"
    by (simp_all add: trim_def isWhiteSpace_def)
  have c: "countTableColumns (Some ''a|b|c'') = 3" "countTableColumns (Some ''-|-'') = 2"
    by (simp_all add: countTableColumns_def Let_def matchAll_length index_first index_last t
        suffix_to_prefix)
  have i: "\<exists>c\<in>set ''|-x-|''. \<not> (isWhiteSpace c \<or> c = CHR ''-'' \<or> c = CHR '':'' \<or> c = CHR ''|'')"
    by (simp add: isWhiteSpace_def)
  have v: "\<not> (''a|b|c'' = [] \<or> ''-|-'' = []
        \<or> (\<exists>c\<in>set ''-|-''. \<not> (isWhiteSpace c \<or> c = CHR ''-'' \<or> c = CHR '':'' \<or> c = CHR ''|'')))"
    by (simp add: isWhiteSpace_def)
  from matchingTableDivider_spec [of "''|a|''" "''|-x-|''"] i
  have a: "\<not> matchingTableDivider (Some ''|a|'') (Some ''|-x-|'')" by blast
  from matchingTableDivider_spec [of "''a|b|c''" "''-|-''"] v
  have "matchingTableDivider (Some ''a|b|c'') (Some ''-|-'')
          = (0 < countTableColumns (Some ''-|-'')
             \<and> countTableColumns (Some ''a|b|c'') \<le> countTableColumns (Some ''-|-''))"
    by blast
  with c have b: "\<not> matchingTableDivider (Some ''a|b|c'') (Some ''-|-'')" by simp
  from i a v c b show ?thesis by blast
qed

text \<open>
  C3. \<^verbatim>\<open>titleFromBody\<close> on the body \<^verbatim>\<open>see [docs]() and (more)\<close>: \<^verbatim>\<open>mdLinkRegex\<close> lets the url
  start with \<^verbatim>\<open>)\<close> and matches \<^verbatim>\<open>[docs]() and (more)\<close> as one link with the label \<^verbatim>\<open>docs\<close>,
  so the title is \<^verbatim>\<open>see docs\<close>: the text \<^verbatim>\<open>and (more)\<close>, which belongs to no link, is lost.
  In the same way \<^verbatim>\<open>emptyMdLinkRegex\<close> turns \<^verbatim>\<open>a []() b) c\<close> into \<^verbatim>\<open>a ) b c\<close>. Where no url
  starts with \<^verbatim>\<open>)\<close> the steps are those of the specification: on its example the title is
  \<^verbatim>\<open>Hello world\<close>; a body with white space around it, markers, an image link, a link with
  an empty label and a second line gives \<^verbatim>\<open>logo http://u end\<close>; and a body of 100 letters
  gives its first 80.
\<close>

theorem titleFromBody_link_swallows_text:
  "titleFromBody (Some ''see [docs]() and (more)'') = Inr ''see docs''
   \<and> mdLinkRegex ''[docs]() and (more)'' = Some (''[docs]() and (more)'', ''docs'')
   \<and> titleFromBody (Some ''a []() b) c'') = Inr ''a ) b c''
   \<and> titleFromBody (Some ''# Hello [world](http://x)\<newline>more text'') = Inr ''Hello world''
   \<and> titleFromBody
        (Some (''\<newline>  ## ![logo](l.png) [](http://u) end  '' @ [CHR 0x0D] @ ''\<newline>second line''))
      = Inr ''logo http://u end''
   \<and> titleFromBody (Some (replicate 100 CHR ''a'')) = Inr (replicate 80 CHR ''a'')"
proof -
  have n: "mdLinkRegex (c # cs) = None" if "c \<noteq> CHR ''!''" "c \<noteq> CHR ''[''" for c cs
    using that by (simp add: mdLinkRegex_def optionalBang_def mdLinkBody_def)
  have e: "emptyMdLinkRegex (c # cs) = None" if "c \<noteq> CHR ''!''" "c \<noteq> CHR ''[''" for c cs
    using that
    by (simp add: emptyMdLinkRegex_def optionalBang_def emptyMdLinkBody_def split: list.splits)
  have lt: "\<not> isLineTerminator c" if "c \<noteq> CHR 0x0A" "c \<noteq> CHR 0x0D" for c
    using that by (simp add: isLineTerminator_def)
  have m1: "mdLinkRegex ''[docs]() and (more)'' = Some (''[docs]() and (more)'', ''docs'')"
    by (simp add: mdLinkRegex_def optionalBang_def mdLinkBody_def lazyUrl_def lt)
  have a1: "trim ''see [docs]() and (more)'' = ''see [docs]() and (more)''"
    by (simp add: trim_def isWhiteSpace_def)
  have a2: "dropWhile isFilterChar ''see [docs]() and (more)'' = ''see [docs]() and (more)''"
    by (simp add: isFilterChar_def)
  have a3: "replaceGroup1 mdLinkRegex ''see [docs]() and (more)'' = ''see docs''"
    by (simp add: n m1)
  have a4: "replaceGroup1 emptyMdLinkRegex ''see docs'' = ''see docs''"
    by (simp add: e)
  have a0: "takeWhile (\<lambda>c. c \<noteq> CHR 0x0A) ''see [docs]() and (more)''
      = ''see [docs]() and (more)''"
    by simp
  have t1: "titleFromBody (Some ''see [docs]() and (more)'') = Inr ''see docs''"
    by (subst titleFromBody_eq) (simp_all only: a1 a0 a2 a3 a4, simp_all)
  have b1: "trim ''a []() b) c'' = ''a []() b) c''"
    by (simp add: trim_def isWhiteSpace_def)
  have b2: "dropWhile isFilterChar ''a []() b) c'' = ''a []() b) c''"
    by (simp add: isFilterChar_def)
  have b3: "mdLinkRegex ''[]() b) c'' = None"
    by (simp add: mdLinkRegex_def optionalBang_def mdLinkBody_def)
  have b4: "replaceGroup1 mdLinkRegex ''a []() b) c'' = ''a []() b) c''"
    by (simp add: n b3)
  have b5: "emptyMdLinkRegex ''[]() b) c'' = Some (''[]() b)'', '') b'')"
    by (simp add: emptyMdLinkRegex_def optionalBang_def emptyMdLinkBody_def lazyUrl_def lt)
  have b6: "replaceGroup1 emptyMdLinkRegex ''a []() b) c'' = ''a ) b c''"
    by (simp add: e b5)
  have b0: "takeWhile (\<lambda>c. c \<noteq> CHR 0x0A) ''a []() b) c'' = ''a []() b) c''"
    by simp
  have t2: "titleFromBody (Some ''a []() b) c'') = Inr ''a ) b c''"
    by (subst titleFromBody_eq) (simp_all only: b1 b0 b2 b4 b6, simp_all)
  let ?ex = "''# Hello [world](http://x)\<newline>more text''"
  have c1: "trim ?ex = ?ex"
    by (simp add: trim_def isWhiteSpace_def)
  have c2: "takeWhile (\<lambda>c. c \<noteq> CHR 0x0A) ?ex = ''# Hello [world](http://x)''"
    by simp
  have c3: "trim ''# Hello [world](http://x)'' = ''# Hello [world](http://x)''"
    by (simp add: trim_def isWhiteSpace_def)
  have c4: "dropWhile isFilterChar ''# Hello [world](http://x)'' = ''Hello [world](http://x)''"
    by (simp add: isFilterChar_def)
  have c5: "mdLinkRegex ''[world](http://x)'' = Some (''[world](http://x)'', ''world'')"
    by (simp add: mdLinkRegex_def optionalBang_def mdLinkBody_def lazyUrl_def lt)
  have c6: "replaceGroup1 mdLinkRegex ''Hello [world](http://x)'' = ''Hello world''"
    by (simp add: n c5)
  have c7: "replaceGroup1 emptyMdLinkRegex ''Hello world'' = ''Hello world''"
    by (simp add: e)
  have t3: "titleFromBody (Some ?ex) = Inr ''Hello world''"
    by (subst titleFromBody_eq) (simp_all only: c1 c2 c3 c4 c6 c7, simp_all)
  let ?b = "''\<newline>  ## ![logo](l.png) [](http://u) end  '' @ [CHR 0x0D] @ ''\<newline>second line''"
  let ?b1 = "''## ![logo](l.png) [](http://u) end  '' @ [CHR 0x0D] @ ''\<newline>second line''"
  let ?b2 = "''## ![logo](l.png) [](http://u) end  '' @ [CHR 0x0D]"
  have d1: "trim ?b = ?b1"
    by (simp add: trim_def isWhiteSpace_def)
  have d2: "takeWhile (\<lambda>c. c \<noteq> CHR 0x0A) ?b1 = ?b2"
    by simp
  have d3: "trim ?b2 = ''## ![logo](l.png) [](http://u) end''"
    by (simp add: trim_def isWhiteSpace_def)
  have d4: "dropWhile isFilterChar ''## ![logo](l.png) [](http://u) end''
      = ''![logo](l.png) [](http://u) end''"
    by (simp add: isFilterChar_def)
  have d5: "mdLinkRegex ''![logo](l.png) [](http://u) end'' = Some (''![logo](l.png)'', ''logo'')"
    by (simp add: mdLinkRegex_def optionalBang_def mdLinkBody_def lazyUrl_def lt)
  have d6: "mdLinkRegex ''[](http://u) end'' = None"
    by (simp add: mdLinkRegex_def optionalBang_def mdLinkBody_def)
  have d7: "replaceGroup1 mdLinkRegex ''![logo](l.png) [](http://u) end''
      = ''logo [](http://u) end''"
    by (simp add: n d5 d6)
  have d8: "emptyMdLinkRegex ''[](http://u) end'' = Some (''[](http://u)'', ''http://u'')"
    by (simp add: emptyMdLinkRegex_def optionalBang_def emptyMdLinkBody_def lazyUrl_def lt)
  have d9: "replaceGroup1 emptyMdLinkRegex ''logo [](http://u) end'' = ''logo http://u end''"
    by (simp add: e d8)
  have t4: "titleFromBody (Some ?b) = Inr ''logo http://u end''"
    by (subst titleFromBody_eq) (simp_all only: d1 d2 d3 d4 d7 d9, simp_all)
  have keep1: "replaceGroup1 mdLinkRegex s = s" if "\<forall>c\<in>set s. c = CHR ''a''" for s
    using that by (induction s) (simp_all add: n)
  have keep2: "replaceGroup1 emptyMdLinkRegex s = s" if "\<forall>c\<in>set s. c = CHR ''a''" for s
    using that by (induction s) (simp_all add: e)
  have keep3: "dropWhile P s = s" if "\<forall>c\<in>set s. c = CHR ''a''" "\<not> P CHR ''a''"
    for P and s :: string
    using that by (cases s) simp_all
  have keep4: "trim s = s" if "\<forall>c\<in>set s. c = CHR ''a''" for s
  proof -
    have w: "\<not> isWhiteSpace CHR ''a''" by (simp add: isWhiteSpace_def)
    from that have r: "\<forall>c\<in>set (rev s). c = CHR ''a''" by simp
    have "dropWhile isWhiteSpace s = s" using that w by (rule keep3)
    moreover have "dropWhile isWhiteSpace (rev s) = rev s" using r w by (rule keep3)
    ultimately show ?thesis by (simp add: trim_def)
  qed
  have keep5: "takeWhile (\<lambda>c. c \<noteq> CHR 0x0A) s = s" if "\<forall>c\<in>set s. c = CHR ''a''" for s
    using that by (auto simp: takeWhile_eq_all_conv)
  let ?a = "replicate 100 CHR ''a''"
  have all: "\<forall>c\<in>set ?a. c = CHR ''a''" by simp
  have f: "\<not> isFilterChar CHR ''a''" by (simp add: isFilterChar_def)
  have ne: "?a \<noteq> []" by simp
  have t5: "titleFromBody (Some ?a) = Inr (replicate 80 CHR ''a'')"
  proof -
    have "dropWhile isFilterChar ?a = ?a" using all f by (rule keep3)
    with keep4 [OF all] keep5 [OF all] keep1 [OF all] keep2 [OF all] show ?thesis
      unfolding titleFromBody_eq [OF ne] by simp
  qed
  from t1 m1 t2 t3 t4 t5 show ?thesis by simp
qed

text \<open>
  C7. For every markdown source and every setting of \<^verbatim>\<open>includeImages\<close>, \<^verbatim>\<open>includeAnchors\<close> and
  \<^verbatim>\<open>html\<close> (given or left to the default), the list that \<^verbatim>\<open>extractFileUrls\<close> returns with
  \<^verbatim>\<open>detailedResults\<close> false, or left out, is the list of the \<^verbatim>\<open>url\<close> fields of the records it
  returns with \<^verbatim>\<open>detailedResults\<close> true, in the same order and with the same repetitions.
\<close>

theorem extractFileUrls_urls_of_detailed:
  "\<exists>rs. extractFileUrls parse imgUrls ancUrls md
           (Some \<lparr>includeImages = ii, includeAnchors = ia, detailedResults = Some True, html = h\<rparr>)
         = Detailed rs
       \<and> extractFileUrls parse imgUrls ancUrls md
           (Some \<lparr>includeImages = ii, includeAnchors = ia, detailedResults = Some False, html = h\<rparr>)
         = Urls (map url rs)
       \<and> extractFileUrls parse imgUrls ancUrls md
           (Some \<lparr>includeImages = ii, includeAnchors = ia, detailedResults = None, html = h\<rparr>)
         = Urls (map url rs)"
proof -
  define II where "II = (case ii of Some b \<Rightarrow> b | None \<Rightarrow> True)"
  define IA where "IA = (case ia of Some b \<Rightarrow> b | None \<Rightarrow> True)"
  define H where "H = (case h of Some b \<Rightarrow> b | None \<Rightarrow> False)"
  let ?r = "\<lambda>D. \<lparr>includeImages = Some II, includeAnchors = Some IA, detailedResults = Some D,
                   html = Some H\<rparr>"
  have w: "withDefaults
      (Some \<lparr>includeImages = ii, includeAnchors = ia, detailedResults = d, html = h\<rparr>)
      = ?r (case d of Some b \<Rightarrow> b | None \<Rightarrow> False)" for d
    by (simp add: withDefaults_def II_def IA_def H_def)
  have s: "searchUrls (?r False) imgUrls ancUrls ts = searchUrls (?r True) imgUrls ancUrls ts"
    for ts
    by (rule searchUrls_options) simp_all
  show ?thesis
    unfolding extractFileUrls_def Let_def w by (simp add: s)
qed

theorem extractFileUrls_urls_of_detailed_witness:
  "extractFileUrls
     (\<lambda>h md. [Token ''inline'' [] md
        [Token ''image'' [[''src'', ''a.png''], [''alt'', []]] [] [],
         Token ''link_open'' [[''href'', ''http://x.com'']] [] [],
         Token ''link_open'' [[''href'', ''http://x.com'']] [] []]])
     (\<lambda>c. []) (\<lambda>c. []) ''![](a.png) [t](http://x.com) [u](http://x.com)''
     (Some \<lparr>includeImages = None, includeAnchors = None, detailedResults = Some False,
            html = None\<rparr>)
   = Urls [''a.png'', ''http://x.com'', ''http://x.com'']"
proof -
  let ?parse = "\<lambda>(h::bool) md. [Token ''inline'' [] md
        [Token ''image'' [[''src'', ''a.png''], [''alt'', []]] [] [],
         Token ''link_open'' [[''href'', ''http://x.com'']] [] [],
         Token ''link_open'' [[''href'', ''http://x.com'']] [] []]]"
  let ?md = "''![](a.png) [t](http://x.com) [u](http://x.com)''"
  have d: "extractFileUrls ?parse (\<lambda>c. []) (\<lambda>c. []) ?md
      (Some \<lparr>includeImages = None, includeAnchors = None, detailedResults = Some True,
             html = None\<rparr>)
    = Detailed [\<lparr>url = ''a.png'', type = Image\<rparr>, \<lparr>url = ''http://x.com'', type = Anchor\<rparr>,
                \<lparr>url = ''http://x.com'', type = Anchor\<rparr>]"
    by (simp add: extractFileUrls_def withDefaults_def searchUrls_def attrUrls_def)
  from extractFileUrls_urls_of_detailed
    [of ?parse "\<lambda>c. []" "\<lambda>c. []" ?md None None None] d
  show ?thesis by auto
qed

text \<open>
  C9, the claim as stated: on \<^verbatim>\<open>null\<close> every function yields a neutral result instead of
  raising an error. \<^verbatim>\<open>escapeLinkUrl(null)\<close> raises a \<^verbatim>\<open>TypeError\<close> and yields no result.
\<close>

theorem escapeLinkUrl_null_raises:
  "escapeLinkUrlOrNull None = Inl TypeError \<and> \<not> (\<exists>r. escapeLinkUrlOrNull None = Inr r)"
  by (simp add: escapeLinkUrlOrNull_def)

text \<open>
  C9, amended. On empty input every function but \<^verbatim>\<open>replaceResourceUrl\<close> returns, without
  raising an error, a neutral result: the empty string for the escaping functions,
  \<^verbatim>\<open>unescapeLinkUrl\<close>, \<^verbatim>\<open>prependBaseUrl\<close>, \<^verbatim>\<open>extractListToken\<close> and \<^verbatim>\<open>titleFromBody\<close>; 0 for
  \<^verbatim>\<open>olLineNumber\<close> and \<^verbatim>\<open>countTableColumns\<close>; false for \<^verbatim>\<open>isListItem\<close> and \<^verbatim>\<open>isEmptyListItem\<close>; the
  empty list for \<^verbatim>\<open>extractFileUrls\<close> and \<^verbatim>\<open>extractImageUrls\<close>, when the parser has no tokens
  for the empty source; the header and divider lines without cells for
  \<^verbatim>\<open>createMarkdownTable\<close> on no headers and no rows. On \<^verbatim>\<open>null\<close> the functions that guard their
  argument do the same: \<^verbatim>\<open>titleFromBody(null)\<close> returns the empty string,
  \<^verbatim>\<open>countTableColumns(null)\<close> returns 0, and \<^verbatim>\<open>matchingTableDivider\<close> returns false whenever
  either argument is empty or \<^verbatim>\<open>null\<close>.
\<close>

theorem neutral_on_empty_and_guarded_on_null:
  "escapeTitleText [] = [] \<and> escapeLinkUrlOrNull (Some []) = Inr [] \<and> escapeTableCell [] = []
   \<and> escapeInlineCode [] = [] \<and> unescapeLinkUrl [] = []
   \<and> prependBaseUrl urlPrependBaseUrl [] baseUrl = []
   \<and> olLineNumber [] = Num 0 \<and> extractListToken [] = []
   \<and> \<not> isListItem [] \<and> \<not> isEmptyListItem []
   \<and> ((\<forall>h. parse h [] = []) \<longrightarrow>
        extractFileUrls parse imgUrls ancUrls [] options
          = (if detailedResults (withDefaults options) = Some True
             then Detailed [] else Urls [])
        \<and> extractImageUrls parse imgUrls ancUrls [] = Urls [])
   \<and> createMarkdownTable padOther [] [] = Inr ''|  |\<newline>|  |''
   \<and> titleFromBody None = Inr [] \<and> titleFromBody (Some []) = Inr []
   \<and> countTableColumns None = 0 \<and> countTableColumns (Some []) = 0
   \<and> (header = None \<or> header = Some [] \<or> divider = None \<or> divider = Some []
        \<longrightarrow> \<not> matchingTableDivider header divider)"
proof -
  have esc: "escapeTitleText [] = []" "escapeLinkUrlOrNull (Some []) = Inr []"
    "escapeTableCell [] = []" "escapeInlineCode [] = []" "unescapeLinkUrl [] = []"
    "prependBaseUrl urlPrependBaseUrl [] baseUrl = []"
    by (simp_all add: escapeTitleText_def escapeLinkUrlOrNull_def escapeLinkUrl_def
        escapeTableCell_def escapeInlineCode_def unescapeLinkUrl_def prependBaseUrl_def)
  have m: "matchListRegex [] = None"
    by (simp add: matchListRegex_def listAlt1_def listAlt2_def listAlt3_def ordinalToken_def)
  have lst: "olLineNumber [] = Num 0" "extractListToken [] = []" "\<not> isListItem []"
    "\<not> isEmptyListItem []"
    by (simp_all add: olLineNumber_def extractListToken_def isListItem_def m isEmptyListItem_def
        ordinalToken_def)
  have ext: "extractFileUrls parse imgUrls ancUrls [] options
          = (if detailedResults (withDefaults options) = Some True
             then Detailed [] else Urls [])
        \<and> extractImageUrls parse imgUrls ancUrls [] = Urls []" if "\<forall>h. parse h [] = []"
    using that
    by (simp add: extractImageUrls_def extractFileUrls_def Let_def searchUrls_def)
      (simp add: withDefaults_def)
  have tab: "createMarkdownTable padOther [] [] = Inr ''|  |\<newline>|  |''"
    by (simp add: createMarkdownTable_def tableLine_def)
  have grd: "titleFromBody None = Inr []" "titleFromBody (Some []) = Inr []"
    "countTableColumns None = 0" "countTableColumns (Some []) = 0"
    by (simp_all add: titleFromBody_def countTableColumns_def)
  have mtd: "\<not> matchingTableDivider header divider"
    if "header = None \<or> header = Some [] \<or> divider = None \<or> divider = Some []"
    using that by (auto simp: matchingTableDivider_def split: option.splits)
  from esc lst ext tab grd mtd show ?thesis by blast
qed

theorem neutral_on_empty_and_guarded_on_null_witness:
  "(\<forall>h. (\<lambda>h md. if md = [] then [] else [Token ''text'' [] md []]) h [] = [])
   \<and> extractFileUrls (\<lambda>h md. if md = [] then [] else [Token ''text'' [] md []])
        (\<lambda>c. []) (\<lambda>c. []) [] None = Urls []
   \<and> (Some ''| a |'' = None \<or> Some ''| a |'' = Some [] \<or> (None :: string option) = None
        \<or> (None :: string option) = Some [])
   \<and> \<not> matchingTableDivider (Some ''| a |'') None
   \<and> \<not> matchingTableDivider (Some []) (Some ''|-|'')"
proof -
  let ?parse = "\<lambda>(h::bool) md. if md = [] then [] else [Token ''text'' [] md []]"
  have p: "\<forall>h. ?parse h [] = []" by simp
  have w: "detailedResults (withDefaults None) \<noteq> Some True"
    by (simp add: withDefaults_def)
  have a: "Some ''| a |'' = None \<or> Some ''| a |'' = Some [] \<or> (None :: string option) = None
        \<or> (None :: string option) = Some []"
    by simp
  note t1 = neutral_on_empty_and_guarded_on_null
    [of _ _ ?parse "\<lambda>c. []" "\<lambda>c. []" None _ "Some ''| a |''" None]
  note t2 = neutral_on_empty_and_guarded_on_null
    [of _ _ ?parse "\<lambda>c. []" "\<lambda>c. []" None _ "Some []" "Some ''|-|''"]
  from t1 p w have e: "extractFileUrls ?parse (\<lambda>c. []) (\<lambda>c. []) [] None = Urls []"
    by simp
  from t1 a have m1: "\<not> matchingTableDivider (Some ''| a |'') None" by blast
  from t2 have m2: "\<not> matchingTableDivider (Some []) (Some ''|-|'')" by blast
  from p e a m1 m2 show ?thesis by blast
qed

end
